theory Spec2Isabelle
  imports Complex_Main "HOL-Library.Word"
begin

unbundle bit_operations_syntax

section \<open>Colour pickup: the bit-mixing transform (ColorPickupInteraction)\<close>

text \<open>
  The two lookup tables of \<^verbatim>\<open>ColorPickupInteraction\<close>, one list of 256 entries per
  partition, entry by entry as the source file has them. A table is indexed by one
  byte of the 32-bit argument.
\<close>

type_synonym uint32_t = "32 word"

definition m_sBitMixingLUT_0 :: "32 word list" where
  "m_sBitMixingLUT_0 = [
    0x000000, 0x000004, 0x000020, 0x000024, 0x000100, 0x000104, 0x000120, 0x000124,
    0x000800, 0x000804, 0x000820, 0x000824, 0x000900, 0x000904, 0x000920, 0x000924,
    0x004000, 0x004004, 0x004020, 0x004024, 0x004100, 0x004104, 0x004120, 0x004124,
    0x004800, 0x004804, 0x004820, 0x004824, 0x004900, 0x004904, 0x004920, 0x004924,
    0x020000, 0x020004, 0x020020, 0x020024, 0x020100, 0x020104, 0x020120, 0x020124,
    0x020800, 0x020804, 0x020820, 0x020824, 0x020900, 0x020904, 0x020920, 0x020924,
    0x024000, 0x024004, 0x024020, 0x024024, 0x024100, 0x024104, 0x024120, 0x024124,
    0x024800, 0x024804, 0x024820, 0x024824, 0x024900, 0x024904, 0x024920, 0x024924,
    0x100000, 0x100004, 0x100020, 0x100024, 0x100100, 0x100104, 0x100120, 0x100124,
    0x100800, 0x100804, 0x100820, 0x100824, 0x100900, 0x100904, 0x100920, 0x100924,
    0x104000, 0x104004, 0x104020, 0x104024, 0x104100, 0x104104, 0x104120, 0x104124,
    0x104800, 0x104804, 0x104820, 0x104824, 0x104900, 0x104904, 0x104920, 0x104924,
    0x120000, 0x120004, 0x120020, 0x120024, 0x120100, 0x120104, 0x120120, 0x120124,
    0x120800, 0x120804, 0x120820, 0x120824, 0x120900, 0x120904, 0x120920, 0x120924,
    0x124000, 0x124004, 0x124020, 0x124024, 0x124100, 0x124104, 0x124120, 0x124124,
    0x124800, 0x124804, 0x124820, 0x124824, 0x124900, 0x124904, 0x124920, 0x124924,
    0x800000, 0x800004, 0x800020, 0x800024, 0x800100, 0x800104, 0x800120, 0x800124,
    0x800800, 0x800804, 0x800820, 0x800824, 0x800900, 0x800904, 0x800920, 0x800924,
    0x804000, 0x804004, 0x804020, 0x804024, 0x804100, 0x804104, 0x804120, 0x804124,
    0x804800, 0x804804, 0x804820, 0x804824, 0x804900, 0x804904, 0x804920, 0x804924,
    0x820000, 0x820004, 0x820020, 0x820024, 0x820100, 0x820104, 0x820120, 0x820124,
    0x820800, 0x820804, 0x820820, 0x820824, 0x820900, 0x820904, 0x820920, 0x820924,
    0x824000, 0x824004, 0x824020, 0x824024, 0x824100, 0x824104, 0x824120, 0x824124,
    0x824800, 0x824804, 0x824820, 0x824824, 0x824900, 0x824904, 0x824920, 0x824924,
    0x900000, 0x900004, 0x900020, 0x900024, 0x900100, 0x900104, 0x900120, 0x900124,
    0x900800, 0x900804, 0x900820, 0x900824, 0x900900, 0x900904, 0x900920, 0x900924,
    0x904000, 0x904004, 0x904020, 0x904024, 0x904100, 0x904104, 0x904120, 0x904124,
    0x904800, 0x904804, 0x904820, 0x904824, 0x904900, 0x904904, 0x904920, 0x904924,
    0x920000, 0x920004, 0x920020, 0x920024, 0x920100, 0x920104, 0x920120, 0x920124,
    0x920800, 0x920804, 0x920820, 0x920824, 0x920900, 0x920904, 0x920920, 0x920924,
    0x924000, 0x924004, 0x924020, 0x924024, 0x924100, 0x924104, 0x924120, 0x924124,
    0x924800, 0x924804, 0x924820, 0x924824, 0x924900, 0x924904, 0x924920, 0x924924]"

definition m_sBitMixingLUT_1 :: "32 word list" where
  "m_sBitMixingLUT_1 = [
    0x000000, 0x000002, 0x000010, 0x000012, 0x000080, 0x000082, 0x000090, 0x000092,
    0x000400, 0x000402, 0x000410, 0x000412, 0x000480, 0x000482, 0x000490, 0x000492,
    0x002000, 0x002002, 0x002010, 0x002012, 0x002080, 0x002082, 0x002090, 0x002092,
    0x002400, 0x002402, 0x002410, 0x002412, 0x002480, 0x002482, 0x002490, 0x002492,
    0x010000, 0x010002, 0x010010, 0x010012, 0x010080, 0x010082, 0x010090, 0x010092,
    0x010400, 0x010402, 0x010410, 0x010412, 0x010480, 0x010482, 0x010490, 0x010492,
    0x012000, 0x012002, 0x012010, 0x012012, 0x012080, 0x012082, 0x012090, 0x012092,
    0x012400, 0x012402, 0x012410, 0x012412, 0x012480, 0x012482, 0x012490, 0x012492,
    0x080000, 0x080002, 0x080010, 0x080012, 0x080080, 0x080082, 0x080090, 0x080092,
    0x080400, 0x080402, 0x080410, 0x080412, 0x080480, 0x080482, 0x080490, 0x080492,
    0x082000, 0x082002, 0x082010, 0x082012, 0x082080, 0x082082, 0x082090, 0x082092,
    0x082400, 0x082402, 0x082410, 0x082412, 0x082480, 0x082482, 0x082490, 0x082492,
    0x090000, 0x090002, 0x090010, 0x090012, 0x090080, 0x090082, 0x090090, 0x090092,
    0x090400, 0x090402, 0x090410, 0x090412, 0x090480, 0x090482, 0x090490, 0x090492,
    0x092000, 0x092002, 0x092010, 0x092012, 0x092080, 0x092082, 0x092090, 0x092092,
    0x092400, 0x092402, 0x092410, 0x092412, 0x092480, 0x092482, 0x092490, 0x092492,
    0x400000, 0x400002, 0x400010, 0x400012, 0x400080, 0x400082, 0x400090, 0x400092,
    0x400400, 0x400402, 0x400410, 0x400412, 0x400480, 0x400482, 0x400490, 0x400492,
    0x402000, 0x402002, 0x402010, 0x402012, 0x402080, 0x402082, 0x402090, 0x402092,
    0x402400, 0x402402, 0x402410, 0x402412, 0x402480, 0x402482, 0x402490, 0x402492,
    0x410000, 0x410002, 0x410010, 0x410012, 0x410080, 0x410082, 0x410090, 0x410092,
    0x410400, 0x410402, 0x410410, 0x410412, 0x410480, 0x410482, 0x410490, 0x410492,
    0x412000, 0x412002, 0x412010, 0x412012, 0x412080, 0x412082, 0x412090, 0x412092,
    0x412400, 0x412402, 0x412410, 0x412412, 0x412480, 0x412482, 0x412490, 0x412492,
    0x480000, 0x480002, 0x480010, 0x480012, 0x480080, 0x480082, 0x480090, 0x480092,
    0x480400, 0x480402, 0x480410, 0x480412, 0x480480, 0x480482, 0x480490, 0x480492,
    0x482000, 0x482002, 0x482010, 0x482012, 0x482080, 0x482082, 0x482090, 0x482092,
    0x482400, 0x482402, 0x482410, 0x482412, 0x482480, 0x482482, 0x482490, 0x482492,
    0x490000, 0x490002, 0x490010, 0x490012, 0x490080, 0x490082, 0x490090, 0x490092,
    0x490400, 0x490402, 0x490410, 0x490412, 0x490480, 0x490482, 0x490490, 0x490492,
    0x492000, 0x492002, 0x492010, 0x492012, 0x492080, 0x492082, 0x492090, 0x492092,
    0x492400, 0x492402, 0x492410, 0x492412, 0x492480, 0x492482, 0x492490, 0x492492]"

definition m_sBitMixingLUT_2 :: "32 word list" where
  "m_sBitMixingLUT_2 = [
    0x000000, 0x000001, 0x000008, 0x000009, 0x000040, 0x000041, 0x000048, 0x000049,
    0x000200, 0x000201, 0x000208, 0x000209, 0x000240, 0x000241, 0x000248, 0x000249,
    0x001000, 0x001001, 0x001008, 0x001009, 0x001040, 0x001041, 0x001048, 0x001049,
    0x001200, 0x001201, 0x001208, 0x001209, 0x001240, 0x001241, 0x001248, 0x001249,
    0x008000, 0x008001, 0x008008, 0x008009, 0x008040, 0x008041, 0x008048, 0x008049,
    0x008200, 0x008201, 0x008208, 0x008209, 0x008240, 0x008241, 0x008248, 0x008249,
    0x009000, 0x009001, 0x009008, 0x009009, 0x009040, 0x009041, 0x009048, 0x009049,
    0x009200, 0x009201, 0x009208, 0x009209, 0x009240, 0x009241, 0x009248, 0x009249,
    0x040000, 0x040001, 0x040008, 0x040009, 0x040040, 0x040041, 0x040048, 0x040049,
    0x040200, 0x040201, 0x040208, 0x040209, 0x040240, 0x040241, 0x040248, 0x040249,
    0x041000, 0x041001, 0x041008, 0x041009, 0x041040, 0x041041, 0x041048, 0x041049,
    0x041200, 0x041201, 0x041208, 0x041209, 0x041240, 0x041241, 0x041248, 0x041249,
    0x048000, 0x048001, 0x048008, 0x048009, 0x048040, 0x048041, 0x048048, 0x048049,
    0x048200, 0x048201, 0x048208, 0x048209, 0x048240, 0x048241, 0x048248, 0x048249,
    0x049000, 0x049001, 0x049008, 0x049009, 0x049040, 0x049041, 0x049048, 0x049049,
    0x049200, 0x049201, 0x049208, 0x049209, 0x049240, 0x049241, 0x049248, 0x049249,
    0x200000, 0x200001, 0x200008, 0x200009, 0x200040, 0x200041, 0x200048, 0x200049,
    0x200200, 0x200201, 0x200208, 0x200209, 0x200240, 0x200241, 0x200248, 0x200249,
    0x201000, 0x201001, 0x201008, 0x201009, 0x201040, 0x201041, 0x201048, 0x201049,
    0x201200, 0x201201, 0x201208, 0x201209, 0x201240, 0x201241, 0x201248, 0x201249,
    0x208000, 0x208001, 0x208008, 0x208009, 0x208040, 0x208041, 0x208048, 0x208049,
    0x208200, 0x208201, 0x208208, 0x208209, 0x208240, 0x208241, 0x208248, 0x208249,
    0x209000, 0x209001, 0x209008, 0x209009, 0x209040, 0x209041, 0x209048, 0x209049,
    0x209200, 0x209201, 0x209208, 0x209209, 0x209240, 0x209241, 0x209248, 0x209249,
    0x240000, 0x240001, 0x240008, 0x240009, 0x240040, 0x240041, 0x240048, 0x240049,
    0x240200, 0x240201, 0x240208, 0x240209, 0x240240, 0x240241, 0x240248, 0x240249,
    0x241000, 0x241001, 0x241008, 0x241009, 0x241040, 0x241041, 0x241048, 0x241049,
    0x241200, 0x241201, 0x241208, 0x241209, 0x241240, 0x241241, 0x241248, 0x241249,
    0x248000, 0x248001, 0x248008, 0x248009, 0x248040, 0x248041, 0x248048, 0x248049,
    0x248200, 0x248201, 0x248208, 0x248209, 0x248240, 0x248241, 0x248248, 0x248249,
    0x249000, 0x249001, 0x249008, 0x249009, 0x249040, 0x249041, 0x249048, 0x249049,
    0x249200, 0x249201, 0x249208, 0x249209, 0x249240, 0x249241, 0x249248, 0x249249]"

definition m_sBitUnmixingLUT_0 :: "32 word list" where
  "m_sBitUnmixingLUT_0 = [
    0x000000, 0x002000, 0x200000, 0x202000, 0x000040, 0x002040, 0x200040, 0x202040,
    0x004000, 0x006000, 0x204000, 0x206000, 0x004040, 0x006040, 0x204040, 0x206040,
    0x400000, 0x402000, 0x600000, 0x602000, 0x400040, 0x402040, 0x600040, 0x602040,
    0x404000, 0x406000, 0x604000, 0x606000, 0x404040, 0x406040, 0x604040, 0x606040,
    0x000080, 0x002080, 0x200080, 0x202080, 0x0000C0, 0x0020C0, 0x2000C0, 0x2020C0,
    0x004080, 0x006080, 0x204080, 0x206080, 0x0040C0, 0x0060C0, 0x2040C0, 0x2060C0,
    0x400080, 0x402080, 0x600080, 0x602080, 0x4000C0, 0x4020C0, 0x6000C0, 0x6020C0,
    0x404080, 0x406080, 0x604080, 0x606080, 0x4040C0, 0x4060C0, 0x6040C0, 0x6060C0,
    0x008000, 0x00A000, 0x208000, 0x20A000, 0x008040, 0x00A040, 0x208040, 0x20A040,
    0x00C000, 0x00E000, 0x20C000, 0x20E000, 0x00C040, 0x00E040, 0x20C040, 0x20E040,
    0x408000, 0x40A000, 0x608000, 0x60A000, 0x408040, 0x40A040, 0x608040, 0x60A040,
    0x40C000, 0x40E000, 0x60C000, 0x60E000, 0x40C040, 0x40E040, 0x60C040, 0x60E040,
    0x008080, 0x00A080, 0x208080, 0x20A080, 0x0080C0, 0x00A0C0, 0x2080C0, 0x20A0C0,
    0x00C080, 0x00E080, 0x20C080, 0x20E080, 0x00C0C0, 0x00E0C0, 0x20C0C0, 0x20E0C0,
    0x408080, 0x40A080, 0x608080, 0x60A080, 0x4080C0, 0x40A0C0, 0x6080C0, 0x60A0C0,
    0x40C080, 0x40E080, 0x60C080, 0x60E080, 0x40C0C0, 0x40E0C0, 0x60C0C0, 0x60E0C0,
    0x800000, 0x802000, 0xA00000, 0xA02000, 0x800040, 0x802040, 0xA00040, 0xA02040,
    0x804000, 0x806000, 0xA04000, 0xA06000, 0x804040, 0x806040, 0xA04040, 0xA06040,
    0xC00000, 0xC02000, 0xE00000, 0xE02000, 0xC00040, 0xC02040, 0xE00040, 0xE02040,
    0xC04000, 0xC06000, 0xE04000, 0xE06000, 0xC04040, 0xC06040, 0xE04040, 0xE06040,
    0x800080, 0x802080, 0xA00080, 0xA02080, 0x8000C0, 0x8020C0, 0xA000C0, 0xA020C0,
    0x804080, 0x806080, 0xA04080, 0xA06080, 0x8040C0, 0x8060C0, 0xA040C0, 0xA060C0,
    0xC00080, 0xC02080, 0xE00080, 0xE02080, 0xC000C0, 0xC020C0, 0xE000C0, 0xE020C0,
    0xC04080, 0xC06080, 0xE04080, 0xE06080, 0xC040C0, 0xC060C0, 0xE040C0, 0xE060C0,
    0x808000, 0x80A000, 0xA08000, 0xA0A000, 0x808040, 0x80A040, 0xA08040, 0xA0A040,
    0x80C000, 0x80E000, 0xA0C000, 0xA0E000, 0x80C040, 0x80E040, 0xA0C040, 0xA0E040,
    0xC08000, 0xC0A000, 0xE08000, 0xE0A000, 0xC08040, 0xC0A040, 0xE08040, 0xE0A040,
    0xC0C000, 0xC0E000, 0xE0C000, 0xE0E000, 0xC0C040, 0xC0E040, 0xE0C040, 0xE0E040,
    0x808080, 0x80A080, 0xA08080, 0xA0A080, 0x8080C0, 0x80A0C0, 0xA080C0, 0xA0A0C0,
    0x80C080, 0x80E080, 0xA0C080, 0xA0E080, 0x80C0C0, 0x80E0C0, 0xA0C0C0, 0xA0E0C0,
    0xC08080, 0xC0A080, 0xE08080, 0xE0A080, 0xC080C0, 0xC0A0C0, 0xE080C0, 0xE0A0C0,
    0xC0C080, 0xC0E080, 0xE0C080, 0xE0E080, 0xC0C0C0, 0xC0E0C0, 0xE0C0C0, 0xE0E0C0]"

definition m_sBitUnmixingLUT_1 :: "32 word list" where
  "m_sBitUnmixingLUT_1 = [
    0x000000, 0x040000, 0x000008, 0x040008, 0x000800, 0x040800, 0x000808, 0x040808,
    0x080000, 0x0C0000, 0x080008, 0x0C0008, 0x080800, 0x0C0800, 0x080808, 0x0C0808,
    0x000010, 0x040010, 0x000018, 0x040018, 0x000810, 0x040810, 0x000818, 0x040818,
    0x080010, 0x0C0010, 0x080018, 0x0C0018, 0x080810, 0x0C0810, 0x080818, 0x0C0818,
    0x001000, 0x041000, 0x001008, 0x041008, 0x001800, 0x041800, 0x001808, 0x041808,
    0x081000, 0x0C1000, 0x081008, 0x0C1008, 0x081800, 0x0C1800, 0x081808, 0x0C1808,
    0x001010, 0x041010, 0x001018, 0x041018, 0x001810, 0x041810, 0x001818, 0x041818,
    0x081010, 0x0C1010, 0x081018, 0x0C1018, 0x081810, 0x0C1810, 0x081818, 0x0C1818,
    0x100000, 0x140000, 0x100008, 0x140008, 0x100800, 0x140800, 0x100808, 0x140808,
    0x180000, 0x1C0000, 0x180008, 0x1C0008, 0x180800, 0x1C0800, 0x180808, 0x1C0808,
    0x100010, 0x140010, 0x100018, 0x140018, 0x100810, 0x140810, 0x100818, 0x140818,
    0x180010, 0x1C0010, 0x180018, 0x1C0018, 0x180810, 0x1C0810, 0x180818, 0x1C0818,
    0x101000, 0x141000, 0x101008, 0x141008, 0x101800, 0x141800, 0x101808, 0x141808,
    0x181000, 0x1C1000, 0x181008, 0x1C1008, 0x181800, 0x1C1800, 0x181808, 0x1C1808,
    0x101010, 0x141010, 0x101018, 0x141018, 0x101810, 0x141810, 0x101818, 0x141818,
    0x181010, 0x1C1010, 0x181018, 0x1C1018, 0x181810, 0x1C1810, 0x181818, 0x1C1818,
    0x000020, 0x040020, 0x000028, 0x040028, 0x000820, 0x040820, 0x000828, 0x040828,
    0x080020, 0x0C0020, 0x080028, 0x0C0028, 0x080820, 0x0C0820, 0x080828, 0x0C0828,
    0x000030, 0x040030, 0x000038, 0x040038, 0x000830, 0x040830, 0x000838, 0x040838,
    0x080030, 0x0C0030, 0x080038, 0x0C0038, 0x080830, 0x0C0830, 0x080838, 0x0C0838,
    0x001020, 0x041020, 0x001028, 0x041028, 0x001820, 0x041820, 0x001828, 0x041828,
    0x081020, 0x0C1020, 0x081028, 0x0C1028, 0x081820, 0x0C1820, 0x081828, 0x0C1828,
    0x001030, 0x041030, 0x001038, 0x041038, 0x001830, 0x041830, 0x001838, 0x041838,
    0x081030, 0x0C1030, 0x081038, 0x0C1038, 0x081830, 0x0C1830, 0x081838, 0x0C1838,
    0x100020, 0x140020, 0x100028, 0x140028, 0x100820, 0x140820, 0x100828, 0x140828,
    0x180020, 0x1C0020, 0x180028, 0x1C0028, 0x180820, 0x1C0820, 0x180828, 0x1C0828,
    0x100030, 0x140030, 0x100038, 0x140038, 0x100830, 0x140830, 0x100838, 0x140838,
    0x180030, 0x1C0030, 0x180038, 0x1C0038, 0x180830, 0x1C0830, 0x180838, 0x1C0838,
    0x101020, 0x141020, 0x101028, 0x141028, 0x101820, 0x141820, 0x101828, 0x141828,
    0x181020, 0x1C1020, 0x181028, 0x1C1028, 0x181820, 0x1C1820, 0x181828, 0x1C1828,
    0x101030, 0x141030, 0x101038, 0x141038, 0x101830, 0x141830, 0x101838, 0x141838,
    0x181030, 0x1C1030, 0x181038, 0x1C1038, 0x181830, 0x1C1830, 0x181838, 0x1C1838]"

definition m_sBitUnmixingLUT_2 :: "32 word list" where
  "m_sBitUnmixingLUT_2 = [
    0x000000, 0x000001, 0x000100, 0x000101, 0x010000, 0x010001, 0x010100, 0x010101,
    0x000002, 0x000003, 0x000102, 0x000103, 0x010002, 0x010003, 0x010102, 0x010103,
    0x000200, 0x000201, 0x000300, 0x000301, 0x010200, 0x010201, 0x010300, 0x010301,
    0x000202, 0x000203, 0x000302, 0x000303, 0x010202, 0x010203, 0x010302, 0x010303,
    0x020000, 0x020001, 0x020100, 0x020101, 0x030000, 0x030001, 0x030100, 0x030101,
    0x020002, 0x020003, 0x020102, 0x020103, 0x030002, 0x030003, 0x030102, 0x030103,
    0x020200, 0x020201, 0x020300, 0x020301, 0x030200, 0x030201, 0x030300, 0x030301,
    0x020202, 0x020203, 0x020302, 0x020303, 0x030202, 0x030203, 0x030302, 0x030303,
    0x000004, 0x000005, 0x000104, 0x000105, 0x010004, 0x010005, 0x010104, 0x010105,
    0x000006, 0x000007, 0x000106, 0x000107, 0x010006, 0x010007, 0x010106, 0x010107,
    0x000204, 0x000205, 0x000304, 0x000305, 0x010204, 0x010205, 0x010304, 0x010305,
    0x000206, 0x000207, 0x000306, 0x000307, 0x010206, 0x010207, 0x010306, 0x010307,
    0x020004, 0x020005, 0x020104, 0x020105, 0x030004, 0x030005, 0x030104, 0x030105,
    0x020006, 0x020007, 0x020106, 0x020107, 0x030006, 0x030007, 0x030106, 0x030107,
    0x020204, 0x020205, 0x020304, 0x020305, 0x030204, 0x030205, 0x030304, 0x030305,
    0x020206, 0x020207, 0x020306, 0x020307, 0x030206, 0x030207, 0x030306, 0x030307,
    0x000400, 0x000401, 0x000500, 0x000501, 0x010400, 0x010401, 0x010500, 0x010501,
    0x000402, 0x000403, 0x000502, 0x000503, 0x010402, 0x010403, 0x010502, 0x010503,
    0x000600, 0x000601, 0x000700, 0x000701, 0x010600, 0x010601, 0x010700, 0x010701,
    0x000602, 0x000603, 0x000702, 0x000703, 0x010602, 0x010603, 0x010702, 0x010703,
    0x020400, 0x020401, 0x020500, 0x020501, 0x030400, 0x030401, 0x030500, 0x030501,
    0x020402, 0x020403, 0x020502, 0x020503, 0x030402, 0x030403, 0x030502, 0x030503,
    0x020600, 0x020601, 0x020700, 0x020701, 0x030600, 0x030601, 0x030700, 0x030701,
    0x020602, 0x020603, 0x020702, 0x020703, 0x030602, 0x030603, 0x030702, 0x030703,
    0x000404, 0x000405, 0x000504, 0x000505, 0x010404, 0x010405, 0x010504, 0x010505,
    0x000406, 0x000407, 0x000506, 0x000507, 0x010406, 0x010407, 0x010506, 0x010507,
    0x000604, 0x000605, 0x000704, 0x000705, 0x010604, 0x010605, 0x010704, 0x010705,
    0x000606, 0x000607, 0x000706, 0x000707, 0x010606, 0x010607, 0x010706, 0x010707,
    0x020404, 0x020405, 0x020504, 0x020505, 0x030404, 0x030405, 0x030504, 0x030505,
    0x020406, 0x020407, 0x020506, 0x020507, 0x030406, 0x030407, 0x030506, 0x030507,
    0x020604, 0x020605, 0x020704, 0x020705, 0x030604, 0x030605, 0x030704, 0x030705,
    0x020606, 0x020607, 0x020706, 0x020707, 0x030606, 0x030607, 0x030706, 0x030707]"

definition m_sBitMixingLUT :: "uint32_t list list" where
  "m_sBitMixingLUT = [m_sBitMixingLUT_0, m_sBitMixingLUT_1, m_sBitMixingLUT_2]"

definition m_sBitUnmixingLUT :: "uint32_t list list" where
  "m_sBitUnmixingLUT = [m_sBitUnmixingLUT_0, m_sBitUnmixingLUT_1, m_sBitUnmixingLUT_2]"

definition bitMixColor :: "uint32_t \<Rightarrow> uint32_t" where
  "bitMixColor color =
     (m_sBitMixingLUT ! 0 ! unat (drop_bit 16 color AND 0xff)) OR
     (m_sBitMixingLUT ! 1 ! unat (drop_bit 8 color AND 0xff)) OR
     (m_sBitMixingLUT ! 2 ! unat (color AND 0xff))"

definition bitUnmixColor :: "uint32_t \<Rightarrow> uint32_t" where
  "bitUnmixColor mixed =
     (m_sBitUnmixingLUT ! 0 ! unat (drop_bit 16 mixed AND 0xff)) OR
     (m_sBitUnmixingLUT ! 1 ! unat (drop_bit 8 mixed AND 0xff)) OR
     (m_sBitUnmixingLUT ! 2 ! unat (mixed AND 0xff))"

text \<open>
  Two devices for reasoning about a 256-entry table without enumerating it. A table
  whose upper half is its lower half with one more bit set is \<open>dbl\<close> of its lower
  half; \<open>build\<close> iterates this from the single entry 0, and \<open>orsel Ks i\<close> is the
  entry at index \<open>i\<close> read off the binary digits of \<open>i\<close>.
\<close>

definition dbl :: "uint32_t \<Rightarrow> uint32_t list \<Rightarrow> uint32_t list" where
  "dbl K A = A @ map (\<lambda>x. x OR K) A"

fun build :: "uint32_t list \<Rightarrow> uint32_t list" where
  "build [] = [0]"
| "build (K # Ks) = dbl K (build Ks)"

fun orsel :: "uint32_t list \<Rightarrow> nat \<Rightarrow> uint32_t" where
  "orsel [] i = 0"
| "orsel (K # Ks) i = (if bit i (length Ks) then K else 0) OR orsel Ks i"

subsection \<open>The tables are bit permutations\<close>

lemma length_build: "length (build Ks) = 2 ^ length Ks"
  by (induction Ks) (simp_all add: dbl_def)

lemma orsel_cong: "(\<And>k. k < length Ks \<Longrightarrow> bit i k = bit j k) \<Longrightarrow> orsel Ks i = orsel Ks j"
  by (induction Ks) simp_all

lemma orsel_mod: "orsel Ks (i mod 2 ^ length Ks) = orsel Ks i"
  by (rule orsel_cong) (simp add: bit_take_bit_iff flip: take_bit_eq_mod)

lemma build_nth: "i < 2 ^ length Ks \<Longrightarrow> build Ks ! i = orsel Ks i"
proof (induction Ks arbitrary: i)
  case Nil
  then show ?case by simp
next
  case (Cons K Ks)
  let ?n = "length Ks"
  show ?case
  proof (cases "i < 2 ^ ?n")
    case True
    then have "\<not> bit i ?n" by (simp add: bit_iff_odd)
    with True Cons.IH [of i] show ?thesis
      by (simp add: dbl_def nth_append length_build)
  next
    case False
    with Cons.prems have r: "i - 2 ^ ?n < 2 ^ ?n" by simp
    define r where "r = i - 2 ^ ?n"
    from False have i: "i = 2 ^ ?n + r" by (simp add: r_def)
    from r have r': "r < 2 ^ ?n" by (simp add: r_def)
    from r' have "i div 2 ^ ?n = 1"
      using div_mult_self2 [of "2 ^ ?n" r 1] by (simp add: i add.commute)
    then have b: "bit i ?n" by (simp add: bit_iff_odd)
    from r' have m: "i mod 2 ^ ?n = i - 2 ^ ?n"
      using mod_mult_self2 [of r "2 ^ ?n" 1] by (simp add: i add.commute)
    have "orsel Ks (i - 2 ^ ?n) = orsel Ks i"
      using orsel_mod [of Ks i] m by simp
    with False b r Cons.IH [of "i - 2 ^ ?n"] show ?thesis
      by (simp add: dbl_def nth_append length_build ac_simps)
  qed
qed

lemma m_sBitMixingLUT_0_build:
  "m_sBitMixingLUT_0 = build [2 ^ 23, 2 ^ 20, 2 ^ 17, 2 ^ 14, 2 ^ 11, 2 ^ 8, 2 ^ 5, 2 ^ 2]"
  by (simp add: dbl_def m_sBitMixingLUT_0_def)

lemma m_sBitMixingLUT_1_build:
  "m_sBitMixingLUT_1 = build [2 ^ 22, 2 ^ 19, 2 ^ 16, 2 ^ 13, 2 ^ 10, 2 ^ 7, 2 ^ 4, 2 ^ 1]"
  by (simp add: dbl_def m_sBitMixingLUT_1_def)

lemma m_sBitMixingLUT_2_build:
  "m_sBitMixingLUT_2 = build [2 ^ 21, 2 ^ 18, 2 ^ 15, 2 ^ 12, 2 ^ 9, 2 ^ 6, 2 ^ 3, 2 ^ 0]"
  by (simp add: dbl_def m_sBitMixingLUT_2_def)

lemma m_sBitUnmixingLUT_0_build:
  "m_sBitUnmixingLUT_0 = build [2 ^ 23, 2 ^ 15, 2 ^ 7, 2 ^ 22, 2 ^ 14, 2 ^ 6, 2 ^ 21, 2 ^ 13]"
  by (simp add: dbl_def m_sBitUnmixingLUT_0_def)

lemma m_sBitUnmixingLUT_1_build:
  "m_sBitUnmixingLUT_1 = build [2 ^ 5, 2 ^ 20, 2 ^ 12, 2 ^ 4, 2 ^ 19, 2 ^ 11, 2 ^ 3, 2 ^ 18]"
  by (simp add: dbl_def m_sBitUnmixingLUT_1_def)

lemma m_sBitUnmixingLUT_2_build:
  "m_sBitUnmixingLUT_2 = build [2 ^ 10, 2 ^ 2, 2 ^ 17, 2 ^ 9, 2 ^ 1, 2 ^ 16, 2 ^ 8, 2 ^ 0]"
  by (simp add: dbl_def m_sBitUnmixingLUT_2_def)

lemma byte_index_less: "unat (x AND (0xff::uint32_t)) < 2 ^ 8"
proof -
  have "x AND 0xff = take_bit 8 x" by (simp add: take_bit_eq_mask mask_eq_exp_minus_1)
  then show ?thesis
    using take_bit_nat_less_exp [of 8 "unat x"] by (simp add: unsigned_take_bit_eq)
qed

lemma bit_byte_index: "bit (unat (x AND (0xff::uint32_t))) k \<longleftrightarrow> k < 8 \<and> bit x k"
proof -
  have "x AND 0xff = take_bit 8 x" by (simp add: take_bit_eq_mask mask_eq_exp_minus_1)
  then show ?thesis by (auto simp add: bit_unsigned_iff bit_take_bit_iff dest: bit_imp_le_length)
qed

lemma lut_nth: "length Ks = 8 \<Longrightarrow> build Ks ! unat (x AND (0xff::uint32_t)) = orsel Ks (unat (x AND 0xff))"
  using byte_index_less [of x] by (simp add: build_nth)

lemma bit_if_exp:
  "bit (if P then (2::uint32_t) ^ e else 0) n \<longleftrightarrow> P \<and> n = e \<and> e < 32"
  by (auto simp add: bit_exp_iff)

lemma bit_orsel8:
  "bit (orsel [2 ^ e7, 2 ^ e6, 2 ^ e5, 2 ^ e4, 2 ^ e3, 2 ^ e2, 2 ^ e1, 2 ^ e0] (unat ((y::uint32_t) AND 0xff))) n \<longleftrightarrow>
     (bit y 7 \<and> n = e7 \<and> e7 < 32) \<or> (bit y 6 \<and> n = e6 \<and> e6 < 32) \<or>
     (bit y 5 \<and> n = e5 \<and> e5 < 32) \<or> (bit y 4 \<and> n = e4 \<and> e4 < 32) \<or>
     (bit y 3 \<and> n = e3 \<and> e3 < 32) \<or> (bit y 2 \<and> n = e2 \<and> e2 < 32) \<or>
     (bit y 1 \<and> n = e1 \<and> e1 < 32) \<or> (bit y 0 \<and> n = e0 \<and> e0 < 32)"
proof -
  have lens:
    "length [e0'] = 1" "length [e1', e0'] = 2" "length [e2', e1', e0'] = 3"
    "length [e3', e2', e1', e0'] = 4" "length [e4', e3', e2', e1', e0'] = 5"
    "length [e5', e4', e3', e2', e1', e0'] = 6"
    "length [e6', e5', e4', e3', e2', e1', e0'] = 7"
    for e0' e1' e2' e3' e4' e5' e6' :: uint32_t
    by simp_all
  show ?thesis
    by (simp only: orsel.simps bit_or_iff bit_if_exp lens list.size(3)) (simp add: bit_byte_index)
qed

lemma bitMixColor_lookup:
  "bitMixColor x =
     orsel [2 ^ 23, 2 ^ 20, 2 ^ 17, 2 ^ 14, 2 ^ 11, 2 ^ 8, 2 ^ 5, 2 ^ 2] (unat (drop_bit 16 x AND 0xff)) OR
     orsel [2 ^ 22, 2 ^ 19, 2 ^ 16, 2 ^ 13, 2 ^ 10, 2 ^ 7, 2 ^ 4, 2 ^ 1] (unat (drop_bit 8 x AND 0xff)) OR
     orsel [2 ^ 21, 2 ^ 18, 2 ^ 15, 2 ^ 12, 2 ^ 9, 2 ^ 6, 2 ^ 3, 2 ^ 0] (unat (x AND 0xff))"
  unfolding bitMixColor_def m_sBitMixingLUT_def
  by (simp only: nth_Cons_0 nth_Cons_Suc One_nat_def numeral_2_eq_2 lut_nth list.size
      m_sBitMixingLUT_0_build m_sBitMixingLUT_1_build m_sBitMixingLUT_2_build)

lemma bit_bitMixColor:
  "bit (bitMixColor x) n \<longleftrightarrow>
     (bit x 23 \<and> n = 23) \<or> (bit x 22 \<and> n = 20) \<or> (bit x 21 \<and> n = 17) \<or> (bit x 20 \<and> n = 14) \<or>
     (bit x 19 \<and> n = 11) \<or> (bit x 18 \<and> n = 8) \<or> (bit x 17 \<and> n = 5) \<or> (bit x 16 \<and> n = 2) \<or>
     (bit x 15 \<and> n = 22) \<or> (bit x 14 \<and> n = 19) \<or> (bit x 13 \<and> n = 16) \<or> (bit x 12 \<and> n = 13) \<or>
     (bit x 11 \<and> n = 10) \<or> (bit x 10 \<and> n = 7) \<or> (bit x 9 \<and> n = 4) \<or> (bit x 8 \<and> n = 1) \<or>
     (bit x 7 \<and> n = 21) \<or> (bit x 6 \<and> n = 18) \<or> (bit x 5 \<and> n = 15) \<or> (bit x 4 \<and> n = 12) \<or>
     (bit x 3 \<and> n = 9) \<or> (bit x 2 \<and> n = 6) \<or> (bit x 1 \<and> n = 3) \<or> (bit x 0 \<and> n = 0)"
  by (simp only: bitMixColor_lookup bit_or_iff bit_orsel8) (simp add: bit_drop_bit_eq)

lemma bitUnmixColor_lookup:
  "bitUnmixColor x =
     orsel [2 ^ 23, 2 ^ 15, 2 ^ 7, 2 ^ 22, 2 ^ 14, 2 ^ 6, 2 ^ 21, 2 ^ 13] (unat (drop_bit 16 x AND 0xff)) OR
     orsel [2 ^ 5, 2 ^ 20, 2 ^ 12, 2 ^ 4, 2 ^ 19, 2 ^ 11, 2 ^ 3, 2 ^ 18] (unat (drop_bit 8 x AND 0xff)) OR
     orsel [2 ^ 10, 2 ^ 2, 2 ^ 17, 2 ^ 9, 2 ^ 1, 2 ^ 16, 2 ^ 8, 2 ^ 0] (unat (x AND 0xff))"
  unfolding bitUnmixColor_def m_sBitUnmixingLUT_def
  by (simp only: nth_Cons_0 nth_Cons_Suc One_nat_def numeral_2_eq_2 lut_nth list.size
      m_sBitUnmixingLUT_0_build m_sBitUnmixingLUT_1_build m_sBitUnmixingLUT_2_build)

lemma bit_bitUnmixColor:
  "bit (bitUnmixColor x) n \<longleftrightarrow>
     (bit x 23 \<and> n = 23) \<or> (bit x 22 \<and> n = 15) \<or> (bit x 21 \<and> n = 7) \<or> (bit x 20 \<and> n = 22) \<or>
     (bit x 19 \<and> n = 14) \<or> (bit x 18 \<and> n = 6) \<or> (bit x 17 \<and> n = 21) \<or> (bit x 16 \<and> n = 13) \<or>
     (bit x 15 \<and> n = 5) \<or> (bit x 14 \<and> n = 20) \<or> (bit x 13 \<and> n = 12) \<or> (bit x 12 \<and> n = 4) \<or>
     (bit x 11 \<and> n = 19) \<or> (bit x 10 \<and> n = 11) \<or> (bit x 9 \<and> n = 3) \<or> (bit x 8 \<and> n = 18) \<or>
     (bit x 7 \<and> n = 10) \<or> (bit x 6 \<and> n = 2) \<or> (bit x 5 \<and> n = 17) \<or> (bit x 4 \<and> n = 9) \<or>
     (bit x 3 \<and> n = 1) \<or> (bit x 2 \<and> n = 16) \<or> (bit x 1 \<and> n = 8) \<or> (bit x 0 \<and> n = 0)"
  by (simp only: bitUnmixColor_lookup bit_or_iff bit_orsel8) (simp add: bit_drop_bit_eq)

lemma bit_position_cases:
  "pos < 24 \<Longrightarrow>
     pos \<in> {23, 22, 21, 20, 19, 18, 17, 16, 15, 14, 13, 12, 11, 10, 9, 8, 7, 6, 5, 4, 3, 2, 1, 0::nat}"
  unfolding insert_iff empty_iff by arith

lemma unmix_mix: "bitUnmixColor (bitMixColor c) = c AND 0xFFFFFF"
proof (rule bit_eqI)
  fix n
  have m: "(0xFFFFFF :: uint32_t) = mask 24" by (simp add: mask_eq_exp_minus_1)
  show "bit (bitUnmixColor (bitMixColor c)) n \<longleftrightarrow> bit (c AND 0xFFFFFF) n"
  proof (cases "n < 24")
    case True
    from bit_position_cases [OF True] show ?thesis
      unfolding m bit_and_iff bit_mask_iff bit_bitUnmixColor insert_iff empty_iff
      by (elim disjE) (simp_all add: bit_bitMixColor)
  next
    case False
    then show ?thesis
      unfolding m bit_and_iff bit_mask_iff bit_bitUnmixColor
      by simp
  qed
qed

text \<open>
  Claim C1. For every 24-bit RGB colour value \<open>c\<close>, un-mixing the bit-mixed colour
  gives \<open>c\<close> back: \<open>bitUnmixColor (bitMixColor c) = c\<close>.
\<close>

theorem bitUnmixColor_bitMixColor:
  "c < 2 ^ 24 \<Longrightarrow> bitUnmixColor (bitMixColor c) = c"
proof -
  assume "c < 2 ^ 24"
  then have "c AND mask 24 = c" by (rule less_mask_eq)
  then have "c AND 0xFFFFFF = c" by (simp add: mask_eq_exp_minus_1)
  with unmix_mix [of c] show ?thesis by simp
qed

theorem bitUnmixColor_bitMixColor_witness:
  "(0x12AB5F :: uint32_t) < 2 ^ 24 \<and> bitUnmixColor (bitMixColor 0x12AB5F) = 0x12AB5F"
  using bitUnmixColor_bitMixColor [of "0x12AB5F"] by simp

subsection \<open>Taking the colour under the cursor (takeColor)\<close>

text \<open>
  Qt's integer rectangle stores its two corners; \<^verbatim>\<open>QRect(left, top, width, height)\<close>
  and \<^verbatim>\<open>moveCenter\<close> are as in Qt. \<^verbatim>\<open>targetBoundingRect\<close> builds the rectangle
  \<^verbatim>\<open>QRect(0, 0, 15, 15)\<close> and centres it on the mouse position.
\<close>

record QPoint =
  xp :: int
  yp :: int

record QRect =
  x1 :: int
  y1 :: int
  x2 :: int
  y2 :: int

definition QRect_of :: "int \<Rightarrow> int \<Rightarrow> int \<Rightarrow> int \<Rightarrow> QRect" where
  "QRect_of aleft atop w h = \<lparr>x1 = aleft, y1 = atop, x2 = aleft + w - 1, y2 = atop + h - 1\<rparr>"

definition rect_width :: "QRect \<Rightarrow> int" where
  "rect_width r = x2 r - x1 r + 1"

definition rect_height :: "QRect \<Rightarrow> int" where
  "rect_height r = y2 r - y1 r + 1"

definition moveCenter :: "QPoint \<Rightarrow> QRect \<Rightarrow> QRect" where
  "moveCenter p r =
     (let w = x2 r - x1 r; h = y2 r - y1 r;
          nx1 = xp p - w div 2; ny1 = yp p - h div 2
      in \<lparr>x1 = nx1, y1 = ny1, x2 = nx1 + w, y2 = ny1 + h\<rparr>)"

definition targetBoundingRect :: "QPoint \<Rightarrow> QRect" where
  "targetBoundingRect mouse_pos = moveCenter mouse_pos (QRect_of 0 0 15 15)"

text \<open>
  The grabbed image in format RGB32: its pixel words and the bytes per line. A line
  pointer is an offset into the words; \<^verbatim>\<open>line[x]\<close> is the word at offset \<open>line + x\<close>.
\<close>

record QImage =
  bits :: "uint32_t list"
  bytesPerLine :: int

definition line_at :: "uint32_t list \<Rightarrow> int \<Rightarrow> int \<Rightarrow> uint32_t" where
  "line_at bs line x = bs ! nat (line + x)"

text \<open>
  \<^verbatim>\<open>QColor(QRgb)\<close> keeps the three colour bytes of the word; the alpha byte is ignored.
\<close>

record QColor =
  red :: "8 word"
  green :: "8 word"
  blue :: "8 word"

definition QColor_of :: "uint32_t \<Rightarrow> QColor" where
  "QColor_of rgb = \<lparr>red = ucast (drop_bit 16 rgb), green = ucast (drop_bit 8 rgb), blue = ucast rgb\<rparr>"

text \<open>
  What \<^verbatim>\<open>takeColor\<close> reads and writes: the counter that suppresses the circle while
  the widget is grabbed, the colour of the zone's fill-colour property, the fill colour
  among the zone set's default properties (absent until located or created), and the
  number of commits made on the zone set.
\<close>

record pickup_state =
  m_dontDrawCircle :: int
  fill_color :: QColor
  default_fill_color :: "QColor option"
  commits :: nat

text \<open>The inner loop over \<open>x\<close> and the outer loop over \<open>y\<close>, appending to \<^verbatim>\<open>bitmixed_colors\<close>.\<close>

function take_line ::
  "uint32_t list \<Rightarrow> int \<Rightarrow> int \<Rightarrow> int \<Rightarrow> int \<Rightarrow> int \<Rightarrow> int \<Rightarrow> uint32_t list \<Rightarrow> uint32_t list" where
  "take_line bs line width x_center dy_sq sqdist_threshold x bitmixed_colors =
     (if x < width then
        (let dx = x - x_center;
             dx_sq = dx * dx;
             sqdist = dy_sq + dx_sq
         in take_line bs line width x_center dy_sq sqdist_threshold (x + 1)
              (if sqdist \<le> sqdist_threshold
               then bitmixed_colors @ [bitMixColor (line_at bs line x)]
               else bitmixed_colors))
      else bitmixed_colors)"
  by pat_completeness auto
termination
  by (relation "measure (\<lambda>(bs, line, width, x_center, dy_sq, thr, x, acc). nat (width - x))") auto

function take_lines ::
  "uint32_t list \<Rightarrow> int \<Rightarrow> int \<Rightarrow> int \<Rightarrow> int \<Rightarrow> int \<Rightarrow> int \<Rightarrow> int \<Rightarrow> int \<Rightarrow> uint32_t list \<Rightarrow> uint32_t list" where
  "take_lines bs stride width height x_center y_center sqdist_threshold y line bitmixed_colors =
     (if y < height then
        (let dy = y - y_center;
             dy_sq = dy * dy
         in take_lines bs stride width height x_center y_center sqdist_threshold (y + 1) (line + stride)
              (take_line bs line width x_center dy_sq sqdist_threshold 0 bitmixed_colors))
      else bitmixed_colors)"
  by pat_completeness auto
termination
  by (relation "measure (\<lambda>(bs, stride, width, height, xc, yc, thr, y, line, acc). nat (height - y))") auto

text \<open>
  \<^verbatim>\<open>std::nth_element\<close> is specified by the C++ library: afterwards the element at the
  given position is the one that would stand there if the whole range were sorted.
\<close>

definition nth_element :: "uint32_t list \<Rightarrow> nat \<Rightarrow> uint32_t" where
  "nth_element xs pos = sort xs ! pos"

definition bitmixed_colors_of :: "QRect \<Rightarrow> QImage \<Rightarrow> uint32_t list" where
  "bitmixed_colors_of rect img =
     (let width = rect_width rect;
          height = rect_height rect;
          x_center = width div 2;
          y_center = height div 2;
          sqdist_threshold = x_center * y_center;
          stride = bytesPerLine img div 4
      in take_lines (bits img) stride width height x_center y_center sqdist_threshold 0 0 [])"

text \<open>
  \<^verbatim>\<open>takeColor\<close>. The pixmap grabbed from the widget is an input: \<open>None\<close> is the null
  pixmap. The guard \<^verbatim>\<open>ScopedIncDec\<close> increments \<^verbatim>\<open>m_dontDrawCircle\<close> on entry and
  decrements it on every way out.
\<close>

definition takeColor :: "QPoint \<Rightarrow> QImage option \<Rightarrow> pickup_state \<Rightarrow> pickup_state" where
  "takeColor mouse_pos pixmap st =
     (let guarded = st\<lparr>m_dontDrawCircle := m_dontDrawCircle st + 1\<rparr>;
          leave = (\<lambda>s. s\<lparr>m_dontDrawCircle := m_dontDrawCircle s - 1\<rparr>);
          rect = targetBoundingRect mouse_pos
      in case pixmap of
           None \<Rightarrow> leave guarded
         | Some img \<Rightarrow>
             (let bitmixed_colors = bitmixed_colors_of rect img
              in if bitmixed_colors = [] then leave guarded
                 else
                   (let half_pos = length bitmixed_colors div 2;
                        color = QColor_of (bitUnmixColor (nth_element bitmixed_colors half_pos))
                    in leave (guarded\<lparr>fill_color := color,
                                      default_fill_color := Some color,
                                      commits := commits guarded + 1\<rparr>))))"

text \<open>
  The pixel \<open>(x, y)\<close> of the image, the circular mask of \<^verbatim>\<open>takeColor\<close> with
  \<open>x_center = width / 2\<close> and \<open>y_center = height / 2\<close>, and the pixels of the grab
  rectangle that lie inside the mask, row by row.
\<close>

definition pixel :: "QImage \<Rightarrow> int \<Rightarrow> int \<Rightarrow> uint32_t" where
  "pixel img x y = line_at (bits img) (y * (bytesPerLine img div 4)) x"

definition inside_circle :: "QRect \<Rightarrow> int \<Rightarrow> int \<Rightarrow> bool" where
  "inside_circle rect x y \<longleftrightarrow>
     (x - rect_width rect div 2)\<^sup>2 + (y - rect_height rect div 2)\<^sup>2
       \<le> (rect_width rect div 2) * (rect_height rect div 2)"

definition sampled_pixels :: "QRect \<Rightarrow> QImage \<Rightarrow> uint32_t list" where
  "sampled_pixels rect img =
     concat (map (\<lambda>y. map (\<lambda>x. pixel img x y)
                          (filter (\<lambda>x. inside_circle rect x y) [0..rect_width rect - 1]))
                 [0..rect_height rect - 1])"

declare take_line.simps [simp del] take_lines.simps [simp del]

subsection \<open>The loops collect the pixels inside the circle\<close>

lemma take_line_eq:
  "take_line bs line width xc dy_sq thr x acc =
     acc @ map (\<lambda>x. bitMixColor (line_at bs line x))
             (filter (\<lambda>x. dy_sq + (x - xc) * (x - xc) \<le> thr) [x..width - 1])"
proof (induction bs line width xc dy_sq thr x acc rule: take_line.induct)
  case (1 bs line width xc dy_sq thr x acc)
  show ?case
  proof (cases "x < width")
    case True
    then have u: "[x..width - 1] = x # [x + 1..width - 1]"
      by (simp add: upto_rec1)
    from True show ?thesis
      by (subst take_line.simps) (simp add: "1.IH" u Let_def)
  next
    case False
    then show ?thesis
      by (subst take_line.simps) simp
  qed
qed

lemma take_lines_eq:
  "take_lines bs stride width height xc yc thr y line acc =
     acc @ concat (map (\<lambda>y'. map (\<lambda>x. bitMixColor (line_at bs (line + (y' - y) * stride) x))
                               (filter (\<lambda>x. (y' - yc) * (y' - yc) + (x - xc) * (x - xc) \<le> thr) [0..width - 1]))
                      [y..height - 1])"
proof (induction bs stride width height xc yc thr y line acc rule: take_lines.induct)
  case (1 bs stride width height xc yc thr y line acc)
  show ?case
  proof (cases "y < height")
    case True
    then have u: "[y..height - 1] = y # [y + 1..height - 1]"
      by (simp add: upto_rec1)
    have shift: "line + stride + (y' - (y + 1)) * stride = line + (y' - y) * stride" for y'
      by (simp add: algebra_simps)
    have "take_lines bs stride width height xc yc thr y line acc =
        take_lines bs stride width height xc yc thr (y + 1) (line + stride)
          (take_line bs line width xc ((y - yc) * (y - yc)) thr 0 acc)"
      using True by (subst take_lines.simps) (simp add: Let_def)
    also note "1.IH" [OF True refl refl]
    finally show ?thesis
      by (simp add: u take_line_eq shift)
  next
    case False
    then show ?thesis
      by (subst take_lines.simps) simp
  qed
qed

lemma targetBoundingRect_size:
  "rect_width (targetBoundingRect p) = 15" "rect_height (targetBoundingRect p) = 15"
  by (simp_all add: targetBoundingRect_def moveCenter_def QRect_of_def rect_width_def
      rect_height_def Let_def)

lemma bitmixed_colors_of_eq:
  "bitmixed_colors_of rect img = map bitMixColor (sampled_pixels rect img)"
proof -
  have sq: "a * a = a\<^sup>2" for a :: int by (simp add: power2_eq_square)
  have comm: "(y - yc)\<^sup>2 + (x - xc)\<^sup>2 = (x - xc)\<^sup>2 + (y - yc)\<^sup>2" for x y xc yc :: int
    by simp
  show ?thesis
    unfolding bitmixed_colors_of_def sampled_pixels_def Let_def take_lines_eq
    by (simp add: map_concat comp_def pixel_def inside_circle_def sq comm)
qed

lemma centre_sampled:
  "pixel img 7 7 \<in> set (sampled_pixels (targetBoundingRect p) img)"
proof -
  have "inside_circle (targetBoundingRect p) 7 7"
    by (simp add: inside_circle_def targetBoundingRect_size)
  then show ?thesis
    unfolding sampled_pixels_def targetBoundingRect_size
    by (auto intro!: bexI [of _ 7])
qed

lemma sampled_pixels_nonempty: "sampled_pixels (targetBoundingRect p) img \<noteq> []"
  using centre_sampled [of img p] by auto

subsection \<open>The rank of the selected key\<close>

lemma length_filter_sort: "length (filter P (sort xs)) = length (filter P xs)"
  by (simp add: filter_sort)

lemma sorted_nth_rank:
  fixes ys :: "'a::linorder list"
  assumes "sorted ys" "k < length ys"
  shows "length (filter (\<lambda>x. x < ys ! k) ys) \<le> k \<and> k < length (filter (\<lambda>x. x \<le> ys ! k) ys)"
proof
  have "{i. i < length ys \<and> ys ! i < ys ! k} \<subseteq> {..<k}"
  proof
    fix i assume "i \<in> {i. i < length ys \<and> ys ! i < ys ! k}"
    then have i: "i < length ys" "ys ! i < ys ! k" by simp_all
    have "i < k"
    proof (rule ccontr)
      assume "\<not> i < k"
      then have "k \<le> i" by simp
      with assms(1) i(1) have "ys ! k \<le> ys ! i" by (simp add: sorted_nth_mono)
      with i(2) show False by simp
    qed
    then show "i \<in> {..<k}" by simp
  qed
  then have "card {i. i < length ys \<and> ys ! i < ys ! k} \<le> card {..<k}"
    by (intro card_mono) simp_all
  then show "length (filter (\<lambda>x. x < ys ! k) ys) \<le> k"
    by (simp add: length_filter_conv_card)
next
  have "{..k} \<subseteq> {i. i < length ys \<and> ys ! i \<le> ys ! k}"
    using assms by (auto simp add: sorted_nth_mono)
  then have "card {..k} \<le> card {i. i < length ys \<and> ys ! i \<le> ys ! k}"
    by (intro card_mono) simp_all
  then show "k < length (filter (\<lambda>x. x \<le> ys ! k) ys)"
    by (simp add: length_filter_conv_card)
qed

lemma nth_element_rank:
  assumes "pos < length xs"
  shows "nth_element xs pos \<in> set xs
    \<and> length (filter (\<lambda>x. x < nth_element xs pos) xs) \<le> pos
    \<and> pos < length (filter (\<lambda>x. x \<le> nth_element xs pos) xs)"
proof -
  from assms have k: "pos < length (sort xs)" by simp
  have "sort xs ! pos \<in> set (sort xs)" using k by (rule nth_mem)
  then have "nth_element xs pos \<in> set xs" by (simp add: nth_element_def)
  moreover from sorted_nth_rank [OF sorted_sort k]
  have "length (filter (\<lambda>x. x < nth_element xs pos) xs) \<le> pos
      \<and> pos < length (filter (\<lambda>x. x \<le> nth_element xs pos) xs)"
    by (simp add: nth_element_def length_filter_sort)
  ultimately show ?thesis by simp
qed

lemma takeColor_Some:
  assumes "bitmixed_colors_of (targetBoundingRect mouse_pos) img \<noteq> []"
  shows "takeColor mouse_pos (Some img) st =
     (let keys = bitmixed_colors_of (targetBoundingRect mouse_pos) img;
          color = QColor_of (bitUnmixColor (nth_element keys (length keys div 2)))
      in st\<lparr>fill_color := color, default_fill_color := Some color, commits := commits st + 1\<rparr>)"
  using assms by (simp add: takeColor_def Let_def)

text \<open>
  Claim C5. In \<open>takeColor\<close> the pixel \<open>(x, y)\<close> of the 15 by 15 grab rectangle is
  sampled exactly when \<open>(x - x_center)\<^sup>2 + (y - y_center)\<^sup>2 \<le> x_center * y_center\<close>: the
  collected keys are the bit-mixed colours of the pixels inside that circle, row by
  row. When there is a sample, the colour written to the fill-colour property is
  \<open>bitUnmixColor\<close> of the key of rank \<open>n div 2\<close> among the \<open>n\<close> keys in the unsigned
  order: the key at position \<open>n div 2\<close> of the sorted keys, which is one of the keys,
  has at most \<open>n div 2\<close> keys below it and more than \<open>n div 2\<close> keys not above it.
\<close>

theorem takeColor_median:
  fixes mouse_pos img st
  defines "rect \<equiv> targetBoundingRect mouse_pos"
  defines "keys \<equiv> bitmixed_colors_of rect img"
  defines "n \<equiv> length keys"
  defines "median \<equiv> sort keys ! (n div 2)"
  shows "rect_width rect = 15 \<and> rect_height rect = 15
    \<and> keys = map bitMixColor (sampled_pixels rect img)
    \<and> (\<forall>x y. 0 \<le> x \<and> x < 15 \<and> 0 \<le> y \<and> y < 15 \<longrightarrow>
          (inside_circle rect x y \<longleftrightarrow> (x - 15 div 2)\<^sup>2 + (y - 15 div 2)\<^sup>2 \<le> (15 div 2) * (15 div 2)))
    \<and> (keys \<noteq> [] \<longrightarrow>
          fill_color (takeColor mouse_pos (Some img) st) = QColor_of (bitUnmixColor median)
        \<and> median \<in> set keys
        \<and> length (filter (\<lambda>k. k < median) keys) \<le> n div 2
        \<and> n div 2 < length (filter (\<lambda>k. k \<le> median) keys))"
proof -
  have size: "rect_width rect = 15" "rect_height rect = 15"
    by (simp_all add: rect_def targetBoundingRect_size)
  have keys: "keys = map bitMixColor (sampled_pixels rect img)"
    by (simp add: keys_def bitmixed_colors_of_eq)
  have mask: "inside_circle rect x y \<longleftrightarrow> (x - 15 div 2)\<^sup>2 + (y - 15 div 2)\<^sup>2 \<le> (15 div 2) * (15 div 2)"
    for x y
    by (simp add: inside_circle_def size)
  have sel: "fill_color (takeColor mouse_pos (Some img) st) = QColor_of (bitUnmixColor median)
        \<and> median \<in> set keys
        \<and> length (filter (\<lambda>k. k < median) keys) \<le> n div 2
        \<and> n div 2 < length (filter (\<lambda>k. k \<le> median) keys)" if ne: "keys \<noteq> []"
  proof -
    from ne have pos: "n div 2 < length keys" by (simp add: n_def)
    have m: "median = nth_element keys (n div 2)" by (simp add: median_def nth_element_def)
    from ne have "fill_color (takeColor mouse_pos (Some img) st) = QColor_of (bitUnmixColor median)"
      by (simp add: takeColor_Some keys_def rect_def Let_def m n_def)
    with nth_element_rank [OF pos] show ?thesis by (simp add: m)
  qed
  from size keys mask sel show ?thesis by blast
qed

definition grey_image :: QImage where
  "grey_image = \<lparr>bits = replicate 225 0xFF808080, bytesPerLine = 60\<rparr>"

definition idle_state :: pickup_state where
  "idle_state = \<lparr>m_dontDrawCircle = 0, fill_color = QColor_of 0, default_fill_color = None, commits = 0\<rparr>"

theorem takeColor_median_witness:
  "bitmixed_colors_of (targetBoundingRect \<lparr>xp = 40, yp = 30\<rparr>) grey_image \<noteq> []
   \<and> fill_color (takeColor \<lparr>xp = 40, yp = 30\<rparr> (Some grey_image) idle_state) =
       QColor_of (bitUnmixColor
         (sort (bitmixed_colors_of (targetBoundingRect \<lparr>xp = 40, yp = 30\<rparr>) grey_image) !
            (length (bitmixed_colors_of (targetBoundingRect \<lparr>xp = 40, yp = 30\<rparr>) grey_image) div 2)))"
proof -
  have ne: "bitmixed_colors_of (targetBoundingRect \<lparr>xp = 40, yp = 30\<rparr>) grey_image \<noteq> []"
    by (simp add: bitmixed_colors_of_eq sampled_pixels_nonempty)
  with takeColor_median [of "\<lparr>xp = 40, yp = 30\<rparr>" grey_image idle_state] show ?thesis
    by simp
qed

text \<open>
  Claim C6. When the capture is empty, that is the pixmap is null or no pixel of the
  grab rectangle passes the circular mask, \<open>takeColor\<close> returns with the state exactly
  as it was: fill colour, default properties, commit count, and the circle counter.
\<close>

theorem takeColor_empty_capture:
  assumes "pixmap = None \<or>
      (\<exists>img. pixmap = Some img \<and> bitmixed_colors_of (targetBoundingRect mouse_pos) img = [])"
  shows "takeColor mouse_pos pixmap st = st"
  using assms by (auto simp add: takeColor_def Let_def)

theorem takeColor_empty_capture_witness:
  "takeColor \<lparr>xp = 40, yp = 30\<rparr> None idle_state = idle_state
   \<and> commits (takeColor \<lparr>xp = 40, yp = 30\<rparr> None idle_state) = 0"
  using takeColor_empty_capture [of None "\<lparr>xp = 40, yp = 30\<rparr>" idle_state]
  by (simp add: idle_state_def)

section \<open>Generic raster operations (imageproc/RasterOpGeneric.h)\<close>

text \<open>
  The templates run an operation over the elements of one, two or three images. An
  element is passed by reference, so the operation may read and write it, and it may
  carry state of its own. The model is generic in the whole state \<open>'s\<close> that the
  operation acts on (the images' memory and whatever else the operation touches); a
  reference is the address of the element, an integer, and pointer arithmetic is
  integer arithmetic. A function that may throw returns the outcome together with the
  state it leaves behind.
\<close>

datatype exception = invalid_argument string

type_synonym 's outcome = "(exception + unit) \<times> 's"

record QSize =
  wd :: int
  ht :: int

definition QSize_isEmpty :: "QSize \<Rightarrow> bool" where
  "QSize_isEmpty sz \<longleftrightarrow> wd sz < 1 \<or> ht sz < 1"

record GridAccessor =
  data :: int
  stride :: int
  width :: int
  height :: int

text \<open>
  \<^verbatim>\<open>BinaryImage\<close> is declared elsewhere; the templates use its accessors only:
  \<^verbatim>\<open>isNull()\<close>, \<^verbatim>\<open>width()\<close>, \<^verbatim>\<open>height()\<close>, \<^verbatim>\<open>wordsPerLine()\<close> and \<^verbatim>\<open>data()\<close>,
  the address of its first 32-bit word.
\<close>

record BinaryImage =
  img_isNull :: bool
  img_width :: int
  img_height :: int
  img_wordsPerLine :: int
  img_data :: int

text \<open>\<^verbatim>\<open>BitProxy\<close>: a reference to a word and the position of one bit in it.\<close>

datatype BitProxy = BitProxy (m_rWord: int) (m_shift: nat)

text \<open>
  All the pointer-level templates have the same two loops:
  \<^verbatim>\<open>for (int y = 0; y < h; ++y) { for (int x = 0; x < w; ++x) { ... } data += stride; }\<close>.
  \<open>for_x\<close> is the inner loop with its body; \<open>for_y\<close> is the outer loop, which hands
  the current line pointers to the row and then advances each by its stride.
\<close>

function for_x :: "int \<Rightarrow> int \<Rightarrow> (int \<Rightarrow> 's \<Rightarrow> 's) \<Rightarrow> 's \<Rightarrow> 's" where
  "for_x w x body s = (if x < w then for_x w (x + 1) body (body x s) else s)"
  by pat_completeness auto
termination
  by (relation "measure (\<lambda>(w, x, body, s). nat (w - x))") auto

function for_y ::
  "int \<Rightarrow> int \<Rightarrow> int list \<Rightarrow> int list \<Rightarrow> (int \<Rightarrow> int list \<Rightarrow> 's \<Rightarrow> 's) \<Rightarrow> 's \<Rightarrow> 's" where
  "for_y h y lines strides row s =
     (if y < h then for_y h (y + 1) (map2 (+) lines strides) strides row (row y lines s) else s)"
  by pat_completeness auto
termination
  by (relation "measure (\<lambda>(h, y, lines, strides, row, s). nat (h - y))") auto

declare for_x.simps [simp del] for_y.simps [simp del]

subsection \<open>The templates on pointers, strides and a size\<close>

definition rasterOpGeneric_1 ::
  "int \<Rightarrow> int \<Rightarrow> QSize \<Rightarrow> (int \<Rightarrow> 's \<Rightarrow> 's) \<Rightarrow> 's \<Rightarrow> 's" where
  "rasterOpGeneric_1 data0 stride0 sz operation s =
     (if QSize_isEmpty sz then s
      else for_y (ht sz) 0 [data0] [stride0]
             (\<lambda>y ls. for_x (wd sz) 0 (\<lambda>x. operation (ls ! 0 + x))) s)"

definition rasterOpGenericXY_1 ::
  "int \<Rightarrow> int \<Rightarrow> QSize \<Rightarrow> (int \<Rightarrow> int \<Rightarrow> int \<Rightarrow> 's \<Rightarrow> 's) \<Rightarrow> 's \<Rightarrow> 's" where
  "rasterOpGenericXY_1 data0 stride0 sz operation s =
     (if QSize_isEmpty sz then s
      else for_y (ht sz) 0 [data0] [stride0]
             (\<lambda>y ls. for_x (wd sz) 0 (\<lambda>x. operation (ls ! 0 + x) x y)) s)"

definition rasterOpGeneric_2 ::
  "int \<Rightarrow> int \<Rightarrow> QSize \<Rightarrow> int \<Rightarrow> int \<Rightarrow> (int \<Rightarrow> int \<Rightarrow> 's \<Rightarrow> 's) \<Rightarrow> 's \<Rightarrow> 's" where
  "rasterOpGeneric_2 data1 stride1 sz data2 stride2 operation s =
     (if QSize_isEmpty sz then s
      else for_y (ht sz) 0 [data1, data2] [stride1, stride2]
             (\<lambda>y ls. for_x (wd sz) 0 (\<lambda>x. operation (ls ! 0 + x) (ls ! 1 + x))) s)"

definition rasterOpGenericXY_2 ::
  "int \<Rightarrow> int \<Rightarrow> QSize \<Rightarrow> int \<Rightarrow> int \<Rightarrow> (int \<Rightarrow> int \<Rightarrow> int \<Rightarrow> int \<Rightarrow> 's \<Rightarrow> 's) \<Rightarrow> 's \<Rightarrow> 's" where
  "rasterOpGenericXY_2 data1 stride1 sz data2 stride2 operation s =
     (if QSize_isEmpty sz then s
      else for_y (ht sz) 0 [data1, data2] [stride1, stride2]
             (\<lambda>y ls. for_x (wd sz) 0 (\<lambda>x. operation (ls ! 0 + x) (ls ! 1 + x) x y)) s)"

definition rasterOpGeneric_3 ::
  "QSize \<Rightarrow> int \<Rightarrow> int \<Rightarrow> int \<Rightarrow> int \<Rightarrow> int \<Rightarrow> int \<Rightarrow> (int \<Rightarrow> int \<Rightarrow> int \<Rightarrow> 's \<Rightarrow> 's) \<Rightarrow> 's \<Rightarrow> 's" where
  "rasterOpGeneric_3 sz data1 stride1 data2 stride2 data3 stride3 operation s =
     (if QSize_isEmpty sz then s
      else for_y (ht sz) 0 [data1, data2, data3] [stride1, stride2, stride3]
             (\<lambda>y ls. for_x (wd sz) 0 (\<lambda>x. operation (ls ! 0 + x) (ls ! 1 + x) (ls ! 2 + x))) s)"

text \<open>
  The version for a const \<^verbatim>\<open>BinaryImage\<close> passes the value of the pixel's bit, read
  from the image's words: \<open>load32\<close> reads a word of the state at an address. The
  version for a non-const image passes a \<open>BitProxy\<close> to that bit. Here \<open>x\<close> is never
  negative, so \<^verbatim>\<open>x >> 5\<close> and \<^verbatim>\<open>x & 31\<close> are \<open>x div 32\<close> and \<open>x mod 32\<close>.
\<close>

definition rasterOpGeneric_bin_const ::
  "('s \<Rightarrow> int \<Rightarrow> uint32_t) \<Rightarrow> BinaryImage \<Rightarrow> int \<Rightarrow> int \<Rightarrow> (uint32_t \<Rightarrow> int \<Rightarrow> 's \<Rightarrow> 's) \<Rightarrow> 's \<Rightarrow> 's" where
  "rasterOpGeneric_bin_const load32 image1 data2 stride2 operation s =
     (if img_isNull image1 then s
      else for_y (img_height image1) 0 [img_data image1, data2] [img_wordsPerLine image1, stride2]
             (\<lambda>y ls. for_x (img_width image1) 0
                (\<lambda>x s'. let shift = nat (31 - x mod 32)
                         in operation (drop_bit shift (load32 s' (ls ! 0 + x div 32)) AND 1)
                              (ls ! 1 + x) s')) s)"

definition rasterOpGeneric_bin ::
  "BinaryImage \<Rightarrow> int \<Rightarrow> int \<Rightarrow> (BitProxy \<Rightarrow> int \<Rightarrow> 's \<Rightarrow> 's) \<Rightarrow> 's \<Rightarrow> 's" where
  "rasterOpGeneric_bin image1 data2 stride2 operation s =
     (if img_isNull image1 then s
      else for_y (img_height image1) 0 [img_data image1, data2] [img_wordsPerLine image1, stride2]
             (\<lambda>y ls. for_x (img_width image1) 0
                (\<lambda>x. operation (BitProxy (ls ! 0 + x div 32) (nat (31 - x mod 32))) (ls ! 1 + x))) s)"

subsection \<open>The templates on grid accessors\<close>

definition size_mismatch :: exception where
  "size_mismatch = invalid_argument ''rasterOpGeneric: size mismatch''"

definition rasterOpGeneric_grid ::
  "GridAccessor \<Rightarrow> (int \<Rightarrow> 's \<Rightarrow> 's) \<Rightarrow> 's \<Rightarrow> 's" where
  "rasterOpGeneric_grid grid operation s =
     rasterOpGeneric_1 (data grid) (stride grid) \<lparr>wd = width grid, ht = height grid\<rparr> operation s"

definition rasterOpGenericXY_grid ::
  "GridAccessor \<Rightarrow> (int \<Rightarrow> int \<Rightarrow> int \<Rightarrow> 's \<Rightarrow> 's) \<Rightarrow> 's \<Rightarrow> 's" where
  "rasterOpGenericXY_grid grid operation s =
     rasterOpGenericXY_1 (data grid) (stride grid) \<lparr>wd = width grid, ht = height grid\<rparr> operation s"

definition rasterOpGeneric_grid2 ::
  "GridAccessor \<Rightarrow> GridAccessor \<Rightarrow> (int \<Rightarrow> int \<Rightarrow> 's \<Rightarrow> 's) \<Rightarrow> 's \<Rightarrow> 's outcome" where
  "rasterOpGeneric_grid2 grid1 grid2 operation s =
     (if width grid1 \<noteq> width grid2 \<or> height grid1 \<noteq> height grid2
      then (Inl size_mismatch, s)
      else (Inr (),
            rasterOpGeneric_2 (data grid1) (stride grid1) \<lparr>wd = width grid1, ht = height grid1\<rparr>
              (data grid2) (stride grid2) operation s))"

text \<open>
  The source also declares a \<^verbatim>\<open>rasterOpGenericXY\<close> on two grid accessors. Its parameters
  are named \<^verbatim>\<open>data1\<close> and \<^verbatim>\<open>data2\<close>, and its body tests and passes on \<^verbatim>\<open>grid1\<close> and
  \<^verbatim>\<open>grid2\<close>, which are declared nowhere in its scope: the template is ill-formed, it has
  no behaviour to embed, and no definition is given for it. The pointer-level
  \<open>rasterOpGenericXY_2\<close> that it means to call is well-formed and is embedded above.
\<close>

definition rasterOpGeneric_grid3 ::
  "GridAccessor \<Rightarrow> GridAccessor \<Rightarrow> GridAccessor \<Rightarrow> (int \<Rightarrow> int \<Rightarrow> int \<Rightarrow> 's \<Rightarrow> 's) \<Rightarrow> 's \<Rightarrow> 's outcome" where
  "rasterOpGeneric_grid3 grid1 grid2 grid3 operation s =
     (if width grid1 \<noteq> width grid2 \<or> height grid1 \<noteq> height grid2 \<or>
         width grid1 \<noteq> width grid3 \<or> height grid1 \<noteq> height grid3
      then (Inl size_mismatch, s)
      else (Inr (),
            rasterOpGeneric_3 \<lparr>wd = width grid1, ht = height grid1\<rparr>
              (data grid1) (stride grid1) (data grid2) (stride grid2)
              (data grid3) (stride grid3) operation s))"

definition rasterOpGeneric_bin_const_grid ::
  "('s \<Rightarrow> int \<Rightarrow> uint32_t) \<Rightarrow> BinaryImage \<Rightarrow> GridAccessor \<Rightarrow> (uint32_t \<Rightarrow> int \<Rightarrow> 's \<Rightarrow> 's) \<Rightarrow> 's \<Rightarrow> 's outcome" where
  "rasterOpGeneric_bin_const_grid load32 image1 image2 operation s =
     (if img_width image1 \<noteq> width image2 \<or> img_height image1 \<noteq> height image2
      then (Inl size_mismatch, s)
      else (Inr (), rasterOpGeneric_bin_const load32 image1 (data image2) (stride image2) operation s))"

definition rasterOpGeneric_bin_grid ::
  "BinaryImage \<Rightarrow> GridAccessor \<Rightarrow> (BitProxy \<Rightarrow> int \<Rightarrow> 's \<Rightarrow> 's) \<Rightarrow> 's \<Rightarrow> 's outcome" where
  "rasterOpGeneric_bin_grid image1 image2 operation s =
     (if img_width image1 \<noteq> width image2 \<or> img_height image1 \<noteq> height image2
      then (Inl size_mismatch, s)
      else (Inr (), rasterOpGeneric_bin image1 (data image2) (stride image2) operation s))"

text \<open>
  For the statements: the coordinates of the pixels of a \<open>w\<close> by \<open>h\<close> image in the
  order the loops visit them (row by row, left to right), the address of the element
  \<open>(x, y)\<close> of a grid, and the bit of the pixel \<open>(x, y)\<close> of a binary image.
\<close>

definition pixels :: "int \<Rightarrow> int \<Rightarrow> (int \<times> int) list" where
  "pixels w h = concat (map (\<lambda>y. map (\<lambda>x. (x, y)) [0..w - 1]) [0..h - 1])"

definition element :: "GridAccessor \<Rightarrow> int \<Rightarrow> int \<Rightarrow> int" where
  "element grid x y = data grid + y * stride grid + x"

definition pixel_bit :: "BinaryImage \<Rightarrow> int \<Rightarrow> int \<Rightarrow> BitProxy" where
  "pixel_bit img x y =
     BitProxy (img_data img + y * img_wordsPerLine img + x div 32) (nat (31 - x mod 32))"

definition bit_value :: "('s \<Rightarrow> int \<Rightarrow> uint32_t) \<Rightarrow> 's \<Rightarrow> BitProxy \<Rightarrow> uint32_t" where
  "bit_value load32 s b = drop_bit (m_shift b) (load32 s (m_rWord b)) AND 1"

subsection \<open>The loops visit every pixel once, row by row\<close>

lemma for_x_eq: "for_x w x body s = fold body [x..w - 1] s"
proof (induction w x body s rule: for_x.induct)
  case (1 w x body s)
  show ?case
  proof (cases "x < w")
    case True
    then have "[x..w - 1] = x # [x + 1..w - 1]" by (simp add: upto_rec1)
    with True "1.IH" show ?thesis by (subst for_x.simps) simp
  next
    case False
    then show ?thesis by (subst for_x.simps) simp
  qed
qed

lemma for_x_fold: "for_x w x body = fold body [x..w - 1]"
  by (rule ext) (rule for_x_eq)

lemma for_y_eq:
  "length lines = length strides \<Longrightarrow>
   for_y h y lines strides row s =
     fold (\<lambda>y'. row y' (map2 (\<lambda>l st. l + (y' - y) * st) lines strides)) [y..h - 1] s"
proof (induction h y lines strides row s rule: for_y.induct)
  case (1 h y lines strides row s)
  show ?case
  proof (cases "y < h")
    case True
    then have u: "[y..h - 1] = y # [y + 1..h - 1]" by (simp add: upto_rec1)
    from "1.prems" have here: "map2 (\<lambda>l st. l + (y - y) * st) lines strides = lines"
      by (induction lines strides rule: list_induct2) simp_all
    from "1.prems" have there:
      "map2 (\<lambda>l st. l + (y' - (y + 1)) * st) (map2 (+) lines strides) strides =
       map2 (\<lambda>l st. l + (y' - y) * st) lines strides" for y'
      by (induction lines strides rule: list_induct2) (simp_all add: algebra_simps)
    have "for_y h y lines strides row s =
        for_y h (y + 1) (map2 (+) lines strides) strides row (row y lines s)"
      using True by (subst for_y.simps) simp
    also have "\<dots> = fold (\<lambda>y'. row y' (map2 (\<lambda>l st. l + (y' - (y + 1)) * st)
        (map2 (+) lines strides) strides)) [y + 1..h - 1] (row y lines s)"
      using "1.prems" by (intro "1.IH" [OF True]) simp
    finally show ?thesis
      by (simp only: u there fold_Cons comp_apply here)
  next
    case False
    then show ?thesis by (subst for_y.simps) simp
  qed
qed

lemma fold_rows: "fold f (concat (map row ys)) s = fold (\<lambda>y. fold f (row y)) ys s"
  by (induction ys arbitrary: s) simp_all

lemma fold_pixels:
  "fold (\<lambda>(x, y). f x y) (pixels w h) s = fold (\<lambda>y. fold (\<lambda>x. f x y) [0..w - 1]) [0..h - 1] s"
  by (simp add: pixels_def fold_rows fold_map comp_def)

lemma pixels_empty: "w < 1 \<or> h < 1 \<Longrightarrow> pixels w h = []"
  by (auto simp add: pixels_def)

lemma rasterOpGeneric_2_eq:
  "rasterOpGeneric_2 data1 stride1 sz data2 stride2 operation s =
     fold (\<lambda>(x, y). operation (data1 + y * stride1 + x) (data2 + y * stride2 + x))
       (pixels (wd sz) (ht sz)) s"
proof (cases "QSize_isEmpty sz")
  case True
  then show ?thesis
    by (simp add: rasterOpGeneric_2_def pixels_empty QSize_isEmpty_def)
next
  case False
  then show ?thesis
    by (simp add: rasterOpGeneric_2_def for_y_eq for_x_fold fold_pixels)
qed

lemma rasterOpGenericXY_2_eq:
  "rasterOpGenericXY_2 data1 stride1 sz data2 stride2 operation s =
     fold (\<lambda>(x, y). operation (data1 + y * stride1 + x) (data2 + y * stride2 + x) x y)
       (pixels (wd sz) (ht sz)) s"
proof (cases "QSize_isEmpty sz")
  case True
  then show ?thesis
    by (simp add: rasterOpGenericXY_2_def pixels_empty QSize_isEmpty_def)
next
  case False
  then show ?thesis
    by (simp add: rasterOpGenericXY_2_def for_y_eq for_x_fold fold_pixels)
qed

lemma rasterOpGeneric_3_eq:
  "rasterOpGeneric_3 sz data1 stride1 data2 stride2 data3 stride3 operation s =
     fold (\<lambda>(x, y). operation (data1 + y * stride1 + x) (data2 + y * stride2 + x)
                       (data3 + y * stride3 + x))
       (pixels (wd sz) (ht sz)) s"
proof (cases "QSize_isEmpty sz")
  case True
  then show ?thesis
    by (simp add: rasterOpGeneric_3_def pixels_empty QSize_isEmpty_def)
next
  case False
  then show ?thesis
    by (simp add: rasterOpGeneric_3_def for_y_eq for_x_fold fold_pixels)
qed

lemma rasterOpGeneric_bin_eq:
  "\<not> img_isNull image1 \<Longrightarrow>
   rasterOpGeneric_bin image1 data2 stride2 operation s =
     fold (\<lambda>(x, y). operation (pixel_bit image1 x y) (data2 + y * stride2 + x))
       (pixels (img_width image1) (img_height image1)) s"
  by (simp add: rasterOpGeneric_bin_def for_y_eq for_x_fold fold_pixels pixel_bit_def)

lemma rasterOpGeneric_bin_const_eq:
  "\<not> img_isNull image1 \<Longrightarrow>
   rasterOpGeneric_bin_const load32 image1 data2 stride2 operation s =
     fold (\<lambda>(x, y) s'. operation (bit_value load32 s' (pixel_bit image1 x y))
                          (data2 + y * stride2 + x) s')
       (pixels (img_width image1) (img_height image1)) s"
  by (simp add: rasterOpGeneric_bin_const_def for_y_eq for_x_fold fold_pixels pixel_bit_def
      bit_value_def Let_def)

lemma rasterOpGeneric_1_eq:
  "rasterOpGeneric_1 data0 stride0 sz operation s =
     fold (\<lambda>(x, y). operation (data0 + y * stride0 + x)) (pixels (wd sz) (ht sz)) s"
proof (cases "QSize_isEmpty sz")
  case True
  then show ?thesis
    by (simp add: rasterOpGeneric_1_def pixels_empty QSize_isEmpty_def)
next
  case False
  then show ?thesis
    by (simp add: rasterOpGeneric_1_def for_y_eq for_x_fold fold_pixels)
qed

lemma rasterOpGenericXY_1_eq:
  "rasterOpGenericXY_1 data0 stride0 sz operation s =
     fold (\<lambda>(x, y). operation (data0 + y * stride0 + x) x y) (pixels (wd sz) (ht sz)) s"
proof (cases "QSize_isEmpty sz")
  case True
  then show ?thesis
    by (simp add: rasterOpGenericXY_1_def pixels_empty QSize_isEmpty_def)
next
  case False
  then show ?thesis
    by (simp add: rasterOpGenericXY_1_def for_y_eq for_x_fold fold_pixels)
qed

lemma distinct_pixels: "distinct (pixels w h)"
proof (cases "w < 1")
  case True
  then show ?thesis by (simp add: pixels_empty)
next
  case False
  then have row: "[0..w - 1] = 0 # [1..w - 1]" by (simp add: upto_rec1)
  show ?thesis
    unfolding pixels_def
    by (rule distinct_concat) (auto simp add: distinct_map inj_on_def row)
qed

lemma set_pixels: "set (pixels w h) = {(x, y). 0 \<le> x \<and> x < w \<and> 0 \<le> y \<and> y < h}"
  by (auto simp add: pixels_def)

text \<open>
  Claim C8. What holds of the overloads that have a body to run: \<^verbatim>\<open>rasterOpGeneric\<close> on
  two grids, on three grids, and on a binary image and a grid (const or not) throws
  \<open>invalid_argument\<close> with the text \<^verbatim>\<open>rasterOpGeneric: size mismatch\<close> when any two of
  its images differ in width or height, and then the state is the one it was called in,
  whatever the operation is: the operation has not run. When the dimensions agree, and
  for \<^verbatim>\<open>rasterOpGeneric\<close> and \<^verbatim>\<open>rasterOpGenericXY\<close> on one grid always, the operation is
  applied once to every pixel, row by row; a null binary image has no pixels and
  nothing is run for it. The claim fails for the remaining overload,
  \<^verbatim>\<open>rasterOpGenericXY\<close> on two grids: as written it is ill-formed (see above), so a call
  of it neither throws on a mismatch nor applies the operation on a match.
\<close>

theorem rasterOp_grid_sizes:
  "(width grid1 \<noteq> width grid2 \<or> height grid1 \<noteq> height grid2 \<longrightarrow>
      rasterOpGeneric_grid2 grid1 grid2 op2 s = (Inl size_mismatch, s))
 \<and> (width grid1 \<noteq> width grid2 \<or> height grid1 \<noteq> height grid2 \<or>
     width grid1 \<noteq> width grid3 \<or> height grid1 \<noteq> height grid3 \<or>
     width grid2 \<noteq> width grid3 \<or> height grid2 \<noteq> height grid3 \<longrightarrow>
      rasterOpGeneric_grid3 grid1 grid2 grid3 op3 s = (Inl size_mismatch, s))
 \<and> (img_width image1 \<noteq> width grid2 \<or> img_height image1 \<noteq> height grid2 \<longrightarrow>
      rasterOpGeneric_bin_const_grid load32 image1 grid2 opc s = (Inl size_mismatch, s)
    \<and> rasterOpGeneric_bin_grid image1 grid2 opb s = (Inl size_mismatch, s))
 \<and> (width grid1 = width grid2 \<and> height grid1 = height grid2 \<longrightarrow>
      rasterOpGeneric_grid2 grid1 grid2 op2 s =
        (Inr (), fold (\<lambda>(x, y). op2 (element grid1 x y) (element grid2 x y))
                   (pixels (width grid1) (height grid1)) s))
 \<and> (width grid1 = width grid2 \<and> height grid1 = height grid2 \<and>
     width grid1 = width grid3 \<and> height grid1 = height grid3 \<longrightarrow>
      rasterOpGeneric_grid3 grid1 grid2 grid3 op3 s =
        (Inr (), fold (\<lambda>(x, y). op3 (element grid1 x y) (element grid2 x y) (element grid3 x y))
                   (pixels (width grid1) (height grid1)) s))
 \<and> (img_width image1 = width grid2 \<and> img_height image1 = height grid2 \<and> \<not> img_isNull image1 \<longrightarrow>
      rasterOpGeneric_bin_const_grid load32 image1 grid2 opc s =
        (Inr (), fold (\<lambda>(x, y) s'. opc (bit_value load32 s' (pixel_bit image1 x y)) (element grid2 x y) s')
                   (pixels (width grid2) (height grid2)) s)
    \<and> rasterOpGeneric_bin_grid image1 grid2 opb s =
        (Inr (), fold (\<lambda>(x, y). opb (pixel_bit image1 x y) (element grid2 x y))
                   (pixels (width grid2) (height grid2)) s))
 \<and> (img_width image1 = width grid2 \<and> img_height image1 = height grid2 \<and> img_isNull image1 \<longrightarrow>
      rasterOpGeneric_bin_const_grid load32 image1 grid2 opc s = (Inr (), s)
    \<and> rasterOpGeneric_bin_grid image1 grid2 opb s = (Inr (), s))
 \<and> rasterOpGeneric_grid grid1 op1 s =
      fold (\<lambda>(x, y). op1 (element grid1 x y)) (pixels (width grid1) (height grid1)) s
 \<and> rasterOpGenericXY_grid grid1 opxy1 s =
      fold (\<lambda>(x, y). opxy1 (element grid1 x y) x y) (pixels (width grid1) (height grid1)) s
 \<and> distinct (pixels (width grid1) (height grid1))
 \<and> set (pixels (width grid1) (height grid1)) =
      {(x, y). 0 \<le> x \<and> x < width grid1 \<and> 0 \<le> y \<and> y < height grid1}"
proof -
  have pair_bad: "rasterOpGeneric_grid2 grid1 grid2 op2 s = (Inl size_mismatch, s)"
    if "width grid1 \<noteq> width grid2 \<or> height grid1 \<noteq> height grid2"
    using that by (simp add: rasterOpGeneric_grid2_def)
  have triple_bad: "rasterOpGeneric_grid3 grid1 grid2 grid3 op3 s = (Inl size_mismatch, s)"
    if "width grid1 \<noteq> width grid2 \<or> height grid1 \<noteq> height grid2 \<or>
        width grid1 \<noteq> width grid3 \<or> height grid1 \<noteq> height grid3 \<or>
        width grid2 \<noteq> width grid3 \<or> height grid2 \<noteq> height grid3"
    using that by (auto simp add: rasterOpGeneric_grid3_def)
  have bin_bad: "rasterOpGeneric_bin_const_grid load32 image1 grid2 opc s = (Inl size_mismatch, s)
      \<and> rasterOpGeneric_bin_grid image1 grid2 opb s = (Inl size_mismatch, s)"
    if "img_width image1 \<noteq> width grid2 \<or> img_height image1 \<noteq> height grid2"
    using that by (simp add: rasterOpGeneric_bin_const_grid_def rasterOpGeneric_bin_grid_def)
  have pair_ok: "rasterOpGeneric_grid2 grid1 grid2 op2 s =
        (Inr (), fold (\<lambda>(x, y). op2 (element grid1 x y) (element grid2 x y))
                   (pixels (width grid1) (height grid1)) s)"
    if "width grid1 = width grid2 \<and> height grid1 = height grid2"
    using that
    by (simp add: rasterOpGeneric_grid2_def rasterOpGeneric_2_eq element_def)
  have triple_ok: "rasterOpGeneric_grid3 grid1 grid2 grid3 op3 s =
        (Inr (), fold (\<lambda>(x, y). op3 (element grid1 x y) (element grid2 x y) (element grid3 x y))
                   (pixels (width grid1) (height grid1)) s)"
    if "width grid1 = width grid2 \<and> height grid1 = height grid2 \<and>
        width grid1 = width grid3 \<and> height grid1 = height grid3"
    using that by (simp add: rasterOpGeneric_grid3_def rasterOpGeneric_3_eq element_def)
  have bin_ok: "rasterOpGeneric_bin_const_grid load32 image1 grid2 opc s =
        (Inr (), fold (\<lambda>(x, y) s'. opc (bit_value load32 s' (pixel_bit image1 x y)) (element grid2 x y) s')
                   (pixels (width grid2) (height grid2)) s)
      \<and> rasterOpGeneric_bin_grid image1 grid2 opb s =
        (Inr (), fold (\<lambda>(x, y). opb (pixel_bit image1 x y) (element grid2 x y))
                   (pixels (width grid2) (height grid2)) s)"
    if "img_width image1 = width grid2 \<and> img_height image1 = height grid2 \<and> \<not> img_isNull image1"
    using that
    by (simp add: rasterOpGeneric_bin_const_grid_def rasterOpGeneric_bin_grid_def
        rasterOpGeneric_bin_const_eq rasterOpGeneric_bin_eq element_def)
  have bin_null: "rasterOpGeneric_bin_const_grid load32 image1 grid2 opc s = (Inr (), s)
      \<and> rasterOpGeneric_bin_grid image1 grid2 opb s = (Inr (), s)"
    if "img_width image1 = width grid2 \<and> img_height image1 = height grid2 \<and> img_isNull image1"
    using that
    by (simp add: rasterOpGeneric_bin_const_grid_def rasterOpGeneric_bin_grid_def
        rasterOpGeneric_bin_const_def rasterOpGeneric_bin_def)
  have single: "rasterOpGeneric_grid grid1 op1 s =
        fold (\<lambda>(x, y). op1 (element grid1 x y)) (pixels (width grid1) (height grid1)) s"
      "rasterOpGenericXY_grid grid1 opxy1 s =
        fold (\<lambda>(x, y). opxy1 (element grid1 x y) x y) (pixels (width grid1) (height grid1)) s"
    by (simp_all add: rasterOpGeneric_grid_def rasterOpGenericXY_grid_def rasterOpGeneric_1_eq
        rasterOpGenericXY_1_eq element_def)
  from pair_bad triple_bad bin_bad pair_ok triple_ok bin_ok bin_null single
    distinct_pixels [of "width grid1" "height grid1"] set_pixels [of "width grid1" "height grid1"]
  show ?thesis by blast
qed

text \<open>
  An example: three grids, the first two of equal size, and an operation that
  records the two references it is given.
\<close>

definition grid_a :: GridAccessor where
  "grid_a = \<lparr>data = 0, stride = 4, width = 2, height = 2\<rparr>"

definition grid_b :: GridAccessor where
  "grid_b = \<lparr>data = 100, stride = 2, width = 2, height = 2\<rparr>"

definition grid_c :: GridAccessor where
  "grid_c = \<lparr>data = 200, stride = 3, width = 3, height = 2\<rparr>"

definition record_refs :: "int \<Rightarrow> int \<Rightarrow> (int \<times> int) list \<Rightarrow> (int \<times> int) list" where
  "record_refs a b visited = visited @ [(a, b)]"

definition grid_0 :: GridAccessor where
  "grid_0 = \<lparr>data = 400, stride = 0, width = 0, height = 0\<rparr>"

definition image_a :: BinaryImage where
  "image_a = \<lparr>img_isNull = False, img_width = 2, img_height = 2, img_wordsPerLine = 1, img_data = 300\<rparr>"

definition image_null :: BinaryImage where
  "image_null = \<lparr>img_isNull = True, img_width = 0, img_height = 0, img_wordsPerLine = 0, img_data = 0\<rparr>"

definition record_bit :: "BitProxy \<Rightarrow> int \<Rightarrow> (int \<times> int) list \<Rightarrow> (int \<times> int) list" where
  "record_bit b a visited = visited @ [(m_rWord b, a)]"

lemma upto_0_1: "[0..1] = [0, 1::int]"
  by (simp add: upto.simps)

theorem rasterOp_grid_sizes_witness:
  "rasterOpGeneric_grid2 grid_a grid_b record_refs [] =
     (Inr (), [(0, 100), (1, 101), (4, 102), (5, 103)])
   \<and> rasterOpGeneric_grid2 grid_a grid_c record_refs [] = (Inl size_mismatch, [])
   \<and> rasterOpGeneric_grid3 grid_a grid_b grid_c (\<lambda>a b c. record_refs a c) [] = (Inl size_mismatch, [])
   \<and> rasterOpGeneric_grid3 grid_a grid_b grid_b (\<lambda>a b c. record_refs a c) [] =
     (Inr (), [(0, 100), (1, 101), (4, 102), (5, 103)])
   \<and> rasterOpGeneric_bin_grid image_a grid_b record_bit [] =
     (Inr (), [(300, 100), (300, 101), (301, 102), (301, 103)])
   \<and> rasterOpGeneric_bin_grid image_a grid_c record_bit [] = (Inl size_mismatch, [])
   \<and> rasterOpGeneric_bin_grid image_null grid_0 record_bit [] = (Inr (), [])"
proof -
  note inst = rasterOp_grid_sizes [where ?op2.0 = record_refs and s = "[]"
      and ?op3.0 = "\<lambda>a b c. record_refs a c" and opb = record_bit]
  note defs = grid_a_def grid_b_def grid_c_def grid_0_def image_a_def image_null_def
  have "rasterOpGeneric_grid2 grid_a grid_b record_refs [] =
     (Inr (), [(0, 100), (1, 101), (4, 102), (5, 103)])"
    using inst [where ?grid1.0 = grid_a and ?grid2.0 = grid_b]
    by (simp add: defs pixels_def element_def record_refs_def upto_0_1)
  moreover have "rasterOpGeneric_grid2 grid_a grid_c record_refs [] = (Inl size_mismatch, [])"
    using inst [where ?grid1.0 = grid_a and ?grid2.0 = grid_c] by (simp add: defs)
  moreover have "rasterOpGeneric_grid3 grid_a grid_b grid_c (\<lambda>a b c. record_refs a c) [] =
      (Inl size_mismatch, [])"
    using inst [where ?grid1.0 = grid_a and ?grid2.0 = grid_b and ?grid3.0 = grid_c]
    by (simp add: defs)
  moreover have "rasterOpGeneric_grid3 grid_a grid_b grid_b (\<lambda>a b c. record_refs a c) [] =
     (Inr (), [(0, 100), (1, 101), (4, 102), (5, 103)])"
    using inst [where ?grid1.0 = grid_a and ?grid2.0 = grid_b and ?grid3.0 = grid_b]
    by (simp add: defs pixels_def element_def record_refs_def upto_0_1)
  moreover have "rasterOpGeneric_bin_grid image_a grid_b record_bit [] =
     (Inr (), [(300, 100), (300, 101), (301, 102), (301, 103)])"
    using inst [where ?image1.0 = image_a and ?grid2.0 = grid_b]
    by (simp add: defs pixels_def element_def pixel_bit_def record_bit_def upto_0_1)
  moreover have "rasterOpGeneric_bin_grid image_a grid_c record_bit [] = (Inl size_mismatch, [])"
    using inst [where ?image1.0 = image_a and ?grid2.0 = grid_c] by (simp add: defs)
  moreover have "rasterOpGeneric_bin_grid image_null grid_0 record_bit [] = (Inr (), [])"
    using inst [where ?image1.0 = image_null and ?grid2.0 = grid_0] by (simp add: defs)
  ultimately show ?thesis by blast
qed

section \<open>The default zone interaction (zones/ZoneDefaultInteraction.cpp)\<close>

subsection \<open>Proximity claims and the interaction state\<close>

text \<open>
  The handler owns three proximity captors (\<^verbatim>\<open>m_vertexProximity\<close>,
  \<^verbatim>\<open>m_segmentProximity\<close>, \<^verbatim>\<open>m_zoneAreaProximity\<close>); its drag handler owns the captor
  with which it captures the input. A proximity is an on-screen distance: any linearly
  ordered type \<open>'p\<close>, compared with \<open><\<close> and \<open>min\<close> as the source does.
\<close>

datatype captor = VertexProximity | SegmentProximity | ZoneAreaProximity | DragHandlerCaptor
  | OtherCaptor nat

record 'p proximity_claim =
  claim_captor :: captor
  claim_proximity :: 'p
  claim_priority :: int
  claim_threshold :: "'p option"

record 'p InteractionState =
  captured_by :: "captor option"
  claims :: "'p proximity_claim list"

definition captured :: "'p InteractionState \<Rightarrow> bool" where
  "captured interaction \<longleftrightarrow> captured_by interaction \<noteq> None"

text \<open>
  Modelled from the spec: \<^verbatim>\<open>InteractionState\<close> is not among the sources. The spec,
  section 4.2: \<^verbatim>\<open>updateProximity(claimId, proximityValue, priority[, auxiliaryData])\<close>
  ``registers a candidate for this event cycle''. A captor has one claim at a time, so
  registering again replaces its earlier claim.
\<close>

definition updateProximity ::
  "captor \<Rightarrow> 'p \<Rightarrow> int \<Rightarrow> 'p option \<Rightarrow> 'p InteractionState \<Rightarrow> 'p InteractionState" where
  "updateProximity c proximity priority threshold interaction =
     interaction\<lparr>claims :=
       filter (\<lambda>cl. claim_captor cl \<noteq> c) (claims interaction) @
       [\<lparr>claim_captor = c, claim_proximity = proximity, claim_priority = priority,
         claim_threshold = threshold\<rparr>]\<rparr>"

text \<open>
  Modelled from the spec: leadership is not among the sources. The spec, section 4.2:
  \<^verbatim>\<open>isLeader\<close> is ``true iff this claim currently has the best value among all claims
  registered this cycle, and capture is not held by a different handler''; section 3:
  a claim at the sentinel distance is ``no candidate''. The comparison that says which
  of two claims has the better value is not among the sources either, and the spec
  does not settle which way it orders the priorities; it is the parameter \<open>better\<close>,
  and nothing below depends on which comparison it is. Between claims neither of which
  is better than the other, the one registered first stays.
\<close>

definition best_claim ::
  "('p proximity_claim \<Rightarrow> 'p proximity_claim \<Rightarrow> bool) \<Rightarrow> 'p \<Rightarrow> 'p proximity_claim list
     \<Rightarrow> 'p proximity_claim option" where
  "best_claim better sentinel cls =
     (case filter (\<lambda>cl. claim_proximity cl \<noteq> sentinel) cls of
        [] \<Rightarrow> None
      | cl # rest \<Rightarrow> Some (fold (\<lambda>c best. if better c best then c else best) rest cl))"

definition proximityLeader ::
  "('p proximity_claim \<Rightarrow> 'p proximity_claim \<Rightarrow> bool) \<Rightarrow> 'p \<Rightarrow> 'p InteractionState \<Rightarrow> captor
     \<Rightarrow> bool" where
  "proximityLeader better sentinel interaction c \<longleftrightarrow>
     (captured_by interaction = None \<or> captured_by interaction = Some c) \<and>
     (case best_claim better sentinel (claims interaction) of
        None \<Rightarrow> False
      | Some cl \<Rightarrow> claim_captor cl = c)"

subsection \<open>Zones as the proximity update sees them\<close>

text \<open>
  The proximity update walks over the zones, and for each zone's spline over its
  vertices (\<^verbatim>\<open>firstVertex()\<close>, then \<^verbatim>\<open>next(NO_LOOP)\<close>) and its segments
  (\<^verbatim>\<open>SegmentIterator\<close>). Splines and vertices are identified by numbers; a segment is
  its two end vertices. The geometry belongs to Qt and to classes that are not among
  the sources, so its results for the current mouse position are inputs: whether the
  polygon of a spline contains the mouse position, the proximity of a vertex, the
  proximity of a segment with the nearest point on it, and the proximity that
  \<^verbatim>\<open>Proximity()\<close> constructs, which stands for ``nothing found''.
\<close>

type_synonym QPointF = "real \<times> real"

type_synonym vertex = nat

record SplineSegment =
  seg_prev :: vertex
  seg_next :: vertex

record EditableSpline =
  spline_id :: nat
  vertices :: "vertex list"
  segments :: "SplineSegment list"

record 'p geometry =
  no_proximity :: 'p
  contains_mouse :: "nat \<Rightarrow> bool"
  vertex_proximity :: "vertex \<Rightarrow> 'p"
  segment_proximity :: "SplineSegment \<Rightarrow> 'p \<times> QPointF"

datatype ShiftState = ShiftStateUnknown | ShiftStatePressed | ShiftStateUnpressed

datatype QCursor = ArrowCursor | DragMoveCursor

text \<open>The members of the handler, and the interaction state it works on.\<close>

record 'p ZoneDefaultInteraction =
  m_screenMousePos :: QPointF
  m_ptrNearestVertex :: "vertex option"
  m_ptrNearestVertexSpline :: "nat option"
  m_nearestSegment :: "SplineSegment option"
  m_ptrNearestSegmentSpline :: "nat option"
  m_screenPointOnSegment :: QPointF
  m_ptrNearestZoneSpline :: "nat option"
  m_lastMovingState :: ShiftState
  zoneAreaCursor :: QCursor
  haveSignificantDrag :: bool
  interaction :: "'p InteractionState"

text \<open>The loop over the vertices of one spline, and the loop over its segments.\<close>

fun process_vertices ::
  "'p::linorder geometry \<Rightarrow> nat \<Rightarrow> vertex list \<Rightarrow> 'p ZoneDefaultInteraction \<times> 'p
     \<Rightarrow> 'p ZoneDefaultInteraction \<times> 'p" where
  "process_vertices geo spl [] (h, best_vertex_proximity) = (h, best_vertex_proximity)"
| "process_vertices geo spl (vert # rest) (h, best_vertex_proximity) =
     (let proximity = vertex_proximity geo vert
      in process_vertices geo spl rest
           (if proximity < best_vertex_proximity
            then (h\<lparr>m_ptrNearestVertex := Some vert, m_ptrNearestVertexSpline := Some spl\<rparr>,
                  proximity)
            else (h, best_vertex_proximity)))"

fun process_segments ::
  "'p::linorder geometry \<Rightarrow> nat \<Rightarrow> SplineSegment list \<Rightarrow> 'p ZoneDefaultInteraction \<times> 'p
     \<Rightarrow> 'p ZoneDefaultInteraction \<times> 'p" where
  "process_segments geo spl [] (h, best_segment_proximity) = (h, best_segment_proximity)"
| "process_segments geo spl (segment # rest) (h, best_segment_proximity) =
     (let (proximity, point_on_segment) = segment_proximity geo segment
      in process_segments geo spl rest
           (if proximity < best_segment_proximity
            then (h\<lparr>m_nearestSegment := Some segment, m_ptrNearestSegmentSpline := Some spl,
                    m_screenPointOnSegment := point_on_segment\<rparr>,
                  proximity)
            else (h, best_segment_proximity)))"

text \<open>
  The loop over the zones. Its state is the handler, the two best proximities and the
  flag \<^verbatim>\<open>has_zone_under_mouse\<close>.
\<close>

fun process_zones ::
  "'p::linorder geometry \<Rightarrow> EditableSpline list \<Rightarrow> 'p ZoneDefaultInteraction \<times> 'p \<times> 'p \<times> bool
     \<Rightarrow> 'p ZoneDefaultInteraction \<times> 'p \<times> 'p \<times> bool" where
  "process_zones geo [] acc = acc"
| "process_zones geo (spline # rest) (h, best_vertex_proximity, best_segment_proximity, has_zone_under_mouse) =
     (let (h, has_zone_under_mouse) =
            (if \<not> has_zone_under_mouse \<and> contains_mouse geo (spline_id spline)
             then (h\<lparr>m_ptrNearestZoneSpline := Some (spline_id spline)\<rparr>, True)
             else (h, has_zone_under_mouse));
          (h, best_vertex_proximity) =
            process_vertices geo (spline_id spline) (vertices spline) (h, best_vertex_proximity);
          (h, best_segment_proximity) =
            process_segments geo (spline_id spline) (segments spline) (h, best_segment_proximity)
      in process_zones geo rest (h, best_vertex_proximity, best_segment_proximity, has_zone_under_mouse))"

definition onProximityUpdate ::
  "'p::linorder geometry \<Rightarrow> EditableSpline list \<Rightarrow> QPointF \<Rightarrow> ShiftState
     \<Rightarrow> 'p ZoneDefaultInteraction \<Rightarrow> 'p ZoneDefaultInteraction" where
  "onProximityUpdate geo zones mouse_pos shiftState h0 =
     (let h = h0\<lparr>m_screenMousePos := mouse_pos,
                 m_ptrNearestVertex := None, m_ptrNearestVertexSpline := None,
                 m_nearestSegment := None, m_ptrNearestSegmentSpline := None\<rparr>;
          (h, best_vertex_proximity, best_segment_proximity, has_zone_under_mouse) =
            process_zones geo zones (h, no_proximity geo, no_proximity geo, False);
          h = h\<lparr>interaction := updateProximity VertexProximity best_vertex_proximity 1 None (interaction h)\<rparr>;
          h = h\<lparr>interaction := updateProximity SegmentProximity best_segment_proximity 0 None (interaction h)\<rparr>;
          h = (if has_zone_under_mouse then
                 (let zone_area_proximity = min best_vertex_proximity best_segment_proximity;
                      h = h\<lparr>interaction := updateProximity ZoneAreaProximity zone_area_proximity (- 1)
                                (Some zone_area_proximity) (interaction h)\<rparr>
                  in if shiftState = ShiftStatePressed \<or>
                        (shiftState = ShiftStateUnknown \<and> m_lastMovingState h = ShiftStatePressed)
                     then h\<lparr>zoneAreaCursor := DragMoveCursor\<rparr>
                     else h\<lparr>zoneAreaCursor := ArrowCursor\<rparr>)
               else h\<lparr>zoneAreaCursor := ArrowCursor\<rparr>)
      in if shiftState \<noteq> ShiftStateUnknown then h\<lparr>m_lastMovingState := shiftState\<rparr> else h)"

text \<open>
  For the statements: the nearest of a list of proximities, starting from the
  proximity that stands for ``nothing found''; all vertex and all segment proximities
  of the zones; and the three claims the update registers.
\<close>

definition nearest :: "'p::linorder \<Rightarrow> 'p list \<Rightarrow> 'p" where
  "nearest start ps = fold min ps start"

definition vertex_proximities :: "'p geometry \<Rightarrow> EditableSpline list \<Rightarrow> 'p list" where
  "vertex_proximities geo zones = concat (map (\<lambda>z. map (vertex_proximity geo) (vertices z)) zones)"

definition segment_proximities :: "'p geometry \<Rightarrow> EditableSpline list \<Rightarrow> 'p list" where
  "segment_proximities geo zones =
     concat (map (\<lambda>z. map (\<lambda>g. fst (segment_proximity geo g)) (segments z)) zones)"

definition vertex_claim :: "'p \<Rightarrow> 'p proximity_claim" where
  "vertex_claim d = \<lparr>claim_captor = VertexProximity, claim_proximity = d, claim_priority = 1,
     claim_threshold = None\<rparr>"

definition segment_claim :: "'p \<Rightarrow> 'p proximity_claim" where
  "segment_claim d = \<lparr>claim_captor = SegmentProximity, claim_proximity = d, claim_priority = 0,
     claim_threshold = None\<rparr>"

definition zone_area_claim :: "'p \<Rightarrow> 'p proximity_claim" where
  "zone_area_claim d = \<lparr>claim_captor = ZoneAreaProximity, claim_proximity = d, claim_priority = - 1,
     claim_threshold = Some d\<rparr>"

subsection \<open>What the loops of the proximity update compute\<close>


lemma nearest_append: "nearest start (ps @ qs) = nearest (nearest start ps) qs"
  by (simp add: nearest_def)

lemma process_vertices_snd:
  "snd (process_vertices geo spl vs (h, b)) = nearest b (map (vertex_proximity geo) vs)"
proof (induction vs arbitrary: h b)
  case Nil
  then show ?case by (simp add: nearest_def)
next
  case (Cons v vs)
  have "(if vertex_proximity geo v < b then vertex_proximity geo v else b) = min (vertex_proximity geo v) b"
    by (auto simp add: min_def)
  with Cons show ?case
    by (simp add: nearest_def Let_def)
qed

lemma process_segments_snd:
  "snd (process_segments geo spl gs (h, b)) = nearest b (map (\<lambda>g. fst (segment_proximity geo g)) gs)"
proof (induction gs arbitrary: h b)
  case Nil
  then show ?case by (simp add: nearest_def)
next
  case (Cons g gs)
  have "(if fst (segment_proximity geo g) < b then fst (segment_proximity geo g) else b) =
      min (fst (segment_proximity geo g)) b"
    by (auto simp add: min_def)
  with Cons show ?case
    by (simp add: nearest_def Let_def split_beta)
qed

lemma process_vertices_frame:
  "interaction (fst (process_vertices geo spl vs (h, b))) = interaction h"
  "m_ptrNearestZoneSpline (fst (process_vertices geo spl vs (h, b))) = m_ptrNearestZoneSpline h"
  "m_lastMovingState (fst (process_vertices geo spl vs (h, b))) = m_lastMovingState h"
  by (induction vs arbitrary: h b) (simp_all add: Let_def)

lemma process_segments_frame:
  "interaction (fst (process_segments geo spl gs (h, b))) = interaction h"
  "m_ptrNearestZoneSpline (fst (process_segments geo spl gs (h, b))) = m_ptrNearestZoneSpline h"
  "m_lastMovingState (fst (process_segments geo spl gs (h, b))) = m_lastMovingState h"
  by (induction gs arbitrary: h b) (simp_all add: Let_def split_beta)

lemma process_zones_result:
  "process_zones geo zones (h, bv, bs, has) = (h', bv', bs', has') \<Longrightarrow>
     bv' = nearest bv (vertex_proximities geo zones)
   \<and> bs' = nearest bs (segment_proximities geo zones)
   \<and> has' = (has \<or> (\<exists>z \<in> set zones. contains_mouse geo (spline_id z)))
   \<and> m_ptrNearestZoneSpline h' =
       (if has then m_ptrNearestZoneSpline h
        else case find (contains_mouse geo) (map spline_id zones) of
               Some z \<Rightarrow> Some z | None \<Rightarrow> m_ptrNearestZoneSpline h)
   \<and> interaction h' = interaction h
   \<and> m_lastMovingState h' = m_lastMovingState h"
proof (induction zones arbitrary: h bv bs has)
  case Nil
  then show ?case
    by (simp add: vertex_proximities_def segment_proximities_def nearest_def)
next
  case (Cons z zones)
  define inside where "inside = (\<not> has \<and> contains_mouse geo (spline_id z))"
  define h1 where "h1 = (if inside then h\<lparr>m_ptrNearestZoneSpline := Some (spline_id z)\<rparr> else h)"
  define has1 where "has1 = (if inside then True else has)"
  define r2 where "r2 = process_vertices geo (spline_id z) (vertices z) (h1, bv)"
  define r3 where "r3 = process_segments geo (spline_id z) (segments z) (fst r2, bs)"
  have step: "process_zones geo (z # zones) (h, bv, bs, has) =
      process_zones geo zones (fst r3, snd r2, snd r3, has1)"
    by (simp add: inside_def h1_def has1_def r2_def r3_def Let_def split_beta)
  from Cons.prems have rest: "process_zones geo zones (fst r3, snd r2, snd r3, has1) = (h', bv', bs', has')"
    by (simp only: step)
  note IH = Cons.IH [OF rest]
  have bv2: "snd r2 = nearest bv (map (vertex_proximity geo) (vertices z))"
    unfolding r2_def by (rule process_vertices_snd)
  have bs3: "snd r3 = nearest bs (map (\<lambda>g. fst (segment_proximity geo g)) (segments z))"
    unfolding r3_def by (rule process_segments_snd)
  have fr: "interaction (fst r3) = interaction h"
    "m_lastMovingState (fst r3) = m_lastMovingState h"
    "m_ptrNearestZoneSpline (fst r3) = m_ptrNearestZoneSpline h1"
    unfolding r3_def r2_def
    by (simp_all add: process_segments_frame process_vertices_frame h1_def)
  have zs: "m_ptrNearestZoneSpline (fst r3) =
      (if inside then Some (spline_id z) else m_ptrNearestZoneSpline h)"
    by (simp add: fr h1_def)
  from IH have bv': "bv' = nearest bv (vertex_proximities geo (z # zones))"
    and bs': "bs' = nearest bs (segment_proximities geo (z # zones))"
    by (simp_all add: bv2 bs3 vertex_proximities_def segment_proximities_def nearest_append)
  from IH have has': "has' = (has \<or> (\<exists>z' \<in> set (z # zones). contains_mouse geo (spline_id z')))"
    by (auto simp add: has1_def inside_def)
  from IH have frame: "interaction h' = interaction h" "m_lastMovingState h' = m_lastMovingState h"
    by (simp_all add: fr)
  from IH have "m_ptrNearestZoneSpline h' =
      (if has1 then m_ptrNearestZoneSpline (fst r3)
       else case find (contains_mouse geo) (map spline_id zones) of
              Some z \<Rightarrow> Some z | None \<Rightarrow> m_ptrNearestZoneSpline (fst r3))"
    by simp
  then have "m_ptrNearestZoneSpline h' =
      (if has then m_ptrNearestZoneSpline h
       else case find (contains_mouse geo) (map spline_id (z # zones)) of
              Some z \<Rightarrow> Some z | None \<Rightarrow> m_ptrNearestZoneSpline h)"
    by (simp add: zs has1_def inside_def cong: option.case_cong)
  with bv' bs' has' frame show ?case by simp
qed

lemma onProximityUpdate_result:
  assumes "claims (interaction h0) = []"
  shows "claims (interaction (onProximityUpdate geo zones mouse_pos shiftState h0)) =
      [vertex_claim (nearest (no_proximity geo) (vertex_proximities geo zones)),
       segment_claim (nearest (no_proximity geo) (segment_proximities geo zones))] @
      (if \<exists>z \<in> set zones. contains_mouse geo (spline_id z)
       then [zone_area_claim (min (nearest (no_proximity geo) (vertex_proximities geo zones))
                                  (nearest (no_proximity geo) (segment_proximities geo zones)))]
       else [])"
    and "m_ptrNearestZoneSpline (onProximityUpdate geo zones mouse_pos shiftState h0) =
      (case find (contains_mouse geo) (map spline_id zones) of
         Some z \<Rightarrow> Some z | None \<Rightarrow> m_ptrNearestZoneSpline h0)"
    and "captured_by (interaction (onProximityUpdate geo zones mouse_pos shiftState h0)) =
      captured_by (interaction h0)"
proof -
  define h1 where "h1 = h0\<lparr>m_screenMousePos := mouse_pos,
      m_ptrNearestVertex := None, m_ptrNearestVertexSpline := None,
      m_nearestSegment := None, m_ptrNearestSegmentSpline := None\<rparr>"
  obtain h2 bv bs has where pz:
    "process_zones geo zones (h1, no_proximity geo, no_proximity geo, False) = (h2, bv, bs, has)"
    by (metis prod_cases4)
  note r = process_zones_result [OF pz]
  from r assms have i2: "claims (interaction h2) = []" "captured_by (interaction h2) = captured_by (interaction h0)"
    by (simp_all add: h1_def)
  from r have z2: "m_ptrNearestZoneSpline h2 =
      (case find (contains_mouse geo) (map spline_id zones) of
         Some z \<Rightarrow> Some z | None \<Rightarrow> m_ptrNearestZoneSpline h0)"
    by (simp add: h1_def cong: option.case_cong)
  have unfold: "onProximityUpdate geo zones mouse_pos shiftState h0 =
     (let h = h2\<lparr>interaction := updateProximity VertexProximity bv 1 None (interaction h2)\<rparr>;
          h = h\<lparr>interaction := updateProximity SegmentProximity bs 0 None (interaction h)\<rparr>;
          h = (if has then
                 (let zone_area_proximity = min bv bs;
                      h = h\<lparr>interaction := updateProximity ZoneAreaProximity zone_area_proximity (- 1)
                                (Some zone_area_proximity) (interaction h)\<rparr>
                  in if shiftState = ShiftStatePressed \<or>
                        (shiftState = ShiftStateUnknown \<and> m_lastMovingState h = ShiftStatePressed)
                     then h\<lparr>zoneAreaCursor := DragMoveCursor\<rparr>
                     else h\<lparr>zoneAreaCursor := ArrowCursor\<rparr>)
               else h\<lparr>zoneAreaCursor := ArrowCursor\<rparr>)
      in if shiftState \<noteq> ShiftStateUnknown then h\<lparr>m_lastMovingState := shiftState\<rparr> else h)"
    unfolding onProximityUpdate_def h1_def [symmetric] Let_def pz by simp
  from r have vals: "bv = nearest (no_proximity geo) (vertex_proximities geo zones)"
    "bs = nearest (no_proximity geo) (segment_proximities geo zones)"
    "has = (\<exists>z \<in> set zones. contains_mouse geo (spline_id z))"
    by simp_all
  show "claims (interaction (onProximityUpdate geo zones mouse_pos shiftState h0)) =
      [vertex_claim (nearest (no_proximity geo) (vertex_proximities geo zones)),
       segment_claim (nearest (no_proximity geo) (segment_proximities geo zones))] @
      (if \<exists>z \<in> set zones. contains_mouse geo (spline_id z)
       then [zone_area_claim (min (nearest (no_proximity geo) (vertex_proximities geo zones))
                                  (nearest (no_proximity geo) (segment_proximities geo zones)))]
       else [])"
    unfolding unfold vals [symmetric]
    by (simp add: Let_def updateProximity_def i2 vertex_claim_def segment_claim_def zone_area_claim_def)
  show "m_ptrNearestZoneSpline (onProximityUpdate geo zones mouse_pos shiftState h0) =
      (case find (contains_mouse geo) (map spline_id zones) of
         Some z \<Rightarrow> Some z | None \<Rightarrow> m_ptrNearestZoneSpline h0)"
    unfolding unfold by (simp add: Let_def z2)
  show "captured_by (interaction (onProximityUpdate geo zones mouse_pos shiftState h0)) =
      captured_by (interaction h0)"
    unfolding unfold by (simp add: Let_def updateProximity_def i2)
qed


subsection \<open>Examples\<close>

text \<open>
  A handler that has not seen anything yet; two zones, the pointer inside the second;
  and a geometry for a pointer that is inside no polygon.
\<close>

definition fresh_handler :: "real ZoneDefaultInteraction" where
  "fresh_handler =
     \<lparr>m_screenMousePos = (0, 0), m_ptrNearestVertex = None, m_ptrNearestVertexSpline = None,
      m_nearestSegment = None, m_ptrNearestSegmentSpline = None, m_screenPointOnSegment = (0, 0),
      m_ptrNearestZoneSpline = None, m_lastMovingState = ShiftStateUnknown,
      zoneAreaCursor = ArrowCursor, haveSignificantDrag = False,
      interaction = \<lparr>captured_by = None, claims = []\<rparr>\<rparr>"



definition equidistant_geometry :: "real geometry" where
  "equidistant_geometry =
     \<lparr>no_proximity = 1000000,
      contains_mouse = (\<lambda>z. False),
      vertex_proximity = (\<lambda>v. 4),
      segment_proximity = (\<lambda>g. (4, (0, 0)))\<rparr>"


subsection \<open>Mouse press and release\<close>

text \<open>
  A mouse event carries its button and whether its modifiers match one of the three
  ``move'' shortcuts. The handlers the context can create are named by what they are
  given. An event handler of the default interaction may install handlers before
  itself (\<^verbatim>\<open>makePeerPreceeder\<close>), delete itself and accept the event; the record below
  says what it did.
\<close>

datatype MouseButton = NoButton | LeftButton | RightButton | MidButton

record QMouseEvent =
  button :: MouseButton
  move_modifiers :: bool

datatype InteractionHandler =
    DefaultInteraction
  | ZoneCreationInteraction
  | VertexDragInteraction "nat option" "vertex option"
  | SplitVertexDragInteraction "nat option" "SplineSegment option" QPointF
  | DragInteraction "nat option" "vertex option"

record handled =
  installed :: "InteractionHandler list"
  deleted :: bool
  accepted :: bool

definition ignored :: handled where
  "ignored = \<lparr>installed = [], deleted = False, accepted = False\<rparr>"

text \<open>
  Modelled from the spec: \<^verbatim>\<open>DragHandler::isActive\<close> is not among the sources. The spec,
  section 4.3: \<^verbatim>\<open>isActive(state)\<close> is ``true iff this handler currently holds capture''.
\<close>

definition dragHandler_isActive :: "'p ZoneDefaultInteraction \<Rightarrow> bool" where
  "dragHandler_isActive h \<longleftrightarrow> captured_by (interaction h) = Some DragHandlerCaptor"

text \<open>
  Modelled from the spec: the handler chain is not among the sources. The spec, section
  4.3: a handler ``may install a newly constructed handler immediately before itself
  in the peer order, detach itself from the chain, and cease to exist''. The chain is
  the list of peers and \<open>i\<close> the position of the handler that handled the event.
\<close>

definition chain_after :: "InteractionHandler list \<Rightarrow> nat \<Rightarrow> handled \<Rightarrow> InteractionHandler list" where
  "chain_after chain i r =
     take i chain @ installed r @ (if deleted r then [] else [chain ! i]) @ drop (Suc i) chain"

definition onMouseReleaseEvent :: "QMouseEvent \<Rightarrow> 'p ZoneDefaultInteraction \<Rightarrow> handled" where
  "onMouseReleaseEvent event h =
     (if button event \<noteq> LeftButton then ignored
      else if \<not> captured (interaction h) then ignored
      else if \<not> dragHandler_isActive h \<or> haveSignificantDrag h then ignored
      else \<lparr>installed = [ZoneCreationInteraction], deleted = True, accepted = True\<rparr>)"

text \<open>
  \<^verbatim>\<open>onMousePressEvent\<close>; \<open>better\<close> and \<open>sentinel\<close> are the comparison of claims and the
  ``nothing found'' proximity that leadership needs. The zone-area branch does not
  return, so the vertex and segment tests follow it as the source has them.
\<close>

definition onMousePressEvent ::
  "('p proximity_claim \<Rightarrow> 'p proximity_claim \<Rightarrow> bool) \<Rightarrow> 'p \<Rightarrow> QMouseEvent
     \<Rightarrow> 'p ZoneDefaultInteraction \<Rightarrow> handled" where
  "onMousePressEvent better sentinel event h =
     (if captured (interaction h) then ignored
      else
        (let r = (if proximityLeader better sentinel (interaction h) ZoneAreaProximity \<and> move_modifiers event
                  then \<lparr>installed = [DragInteraction (m_ptrNearestZoneSpline h) (m_ptrNearestVertex h)],
                        deleted = True, accepted = True\<rparr>
                  else ignored)
         in if button event \<noteq> LeftButton then r
            else if proximityLeader better sentinel (interaction h) VertexProximity
            then \<lparr>installed = installed r @
                    [VertexDragInteraction (m_ptrNearestVertexSpline h) (m_ptrNearestVertex h)],
                  deleted = True, accepted = True\<rparr>
            else if proximityLeader better sentinel (interaction h) SegmentProximity
            then \<lparr>installed = installed r @
                    [SplitVertexDragInteraction (m_ptrNearestSegmentSpline h) (m_nearestSegment h)
                       (m_screenPointOnSegment h)],
                  deleted = True, accepted = True\<rparr>
            else r))"

subsection \<open>Release after a press that the drag handler took\<close>

lemma no_leader_without_candidates:
  "\<forall>cl \<in> set (claims st). claim_proximity cl = sentinel \<Longrightarrow> \<not> proximityLeader better sentinel st c"
proof -
  assume "\<forall>cl \<in> set (claims st). claim_proximity cl = sentinel"
  then have "filter (\<lambda>cl. claim_proximity cl \<noteq> sentinel) (claims st) = []"
    by (simp add: filter_empty_conv)
  then show ?thesis
    by (simp add: proximityLeader_def best_claim_def)
qed

lemma no_zones_no_leader:
  assumes "claims (interaction h0) = []"
  shows "\<not> proximityLeader better (no_proximity geo)
      (interaction (onProximityUpdate geo [] mouse_pos shiftState h0)) c"
proof (rule no_leader_without_candidates)
  from onProximityUpdate_result(1) [OF assms, of geo "[]" mouse_pos shiftState]
  show "\<forall>cl \<in> set (claims (interaction (onProximityUpdate geo [] mouse_pos shiftState h0))).
      claim_proximity cl = no_proximity geo"
    by (simp add: vertex_proximities_def segment_proximities_def nearest_def vertex_claim_def
        segment_claim_def)
qed

text \<open>
  Claim C7 (as stated, it fails). A left-button release with no significant drag and
  no proximity claim leading, whatever the comparison of claims, is ignored when the
  input is not captured: here the handler has just seen a proximity update with no
  zones and nothing holds the capture.
\<close>

theorem release_without_capture_counterexample:
  "button \<lparr>button = LeftButton, move_modifiers = False\<rparr> = LeftButton
   \<and> \<not> haveSignificantDrag (onProximityUpdate equidistant_geometry [] (10, 10) ShiftStateUnknown fresh_handler)
   \<and> (\<forall>better. \<not> proximityLeader better (no_proximity equidistant_geometry)
        (interaction (onProximityUpdate equidistant_geometry [] (10, 10) ShiftStateUnknown fresh_handler))
        VertexProximity)
   \<and> (\<forall>better. \<not> proximityLeader better (no_proximity equidistant_geometry)
        (interaction (onProximityUpdate equidistant_geometry [] (10, 10) ShiftStateUnknown fresh_handler))
        SegmentProximity)
   \<and> (\<forall>better. \<not> proximityLeader better (no_proximity equidistant_geometry)
        (interaction (onProximityUpdate equidistant_geometry [] (10, 10) ShiftStateUnknown fresh_handler))
        ZoneAreaProximity)
   \<and> onMouseReleaseEvent \<lparr>button = LeftButton, move_modifiers = False\<rparr>
        (onProximityUpdate equidistant_geometry [] (10, 10) ShiftStateUnknown fresh_handler) =
      \<lparr>installed = [], deleted = False, accepted = False\<rparr>
   \<and> chain_after [DefaultInteraction] 0
        (onMouseReleaseEvent \<lparr>button = LeftButton, move_modifiers = False\<rparr>
          (onProximityUpdate equidistant_geometry [] (10, 10) ShiftStateUnknown fresh_handler)) =
      [DefaultInteraction]"
proof -
  let ?h = "onProximityUpdate equidistant_geometry [] (10, 10) ShiftStateUnknown fresh_handler"
  have e: "claims (interaction fresh_handler) = []"
    by (simp add: fresh_handler_def)
  have k: "captured_by (interaction ?h) = None"
    using onProximityUpdate_result(3) [OF e, of equidistant_geometry "[]" "(10, 10)" ShiftStateUnknown]
    by (simp add: fresh_handler_def)
  have d: "\<not> haveSignificantDrag ?h"
    by (simp add: onProximityUpdate_def fresh_handler_def Let_def)
  have r: "onMouseReleaseEvent \<lparr>button = LeftButton, move_modifiers = False\<rparr> ?h = ignored"
    by (simp add: onMouseReleaseEvent_def captured_def k)
  from d r no_zones_no_leader [OF e, where geo = equidistant_geometry and mouse_pos = "(10, 10)"
      and shiftState = ShiftStateUnknown]
  show ?thesis
    by (simp add: ignored_def chain_after_def)
qed

text \<open>
  Claim C7, amended. When the default handler receives a left-button release while its
  own drag handler holds the input capture (it took the press) and no significant drag
  has occurred since, it installs a zone-creation handler in its place in the chain,
  deletes itself and accepts the event; with the capture held no proximity claim of
  the handler leads. A release with another button, without that capture, or after a
  significant drag is ignored. End to end with no zones: the proximity update leaves
  no claim leading, so a left press is not taken by the default handler itself; once
  its drag handler holds the capture for that press, the release without significant
  drag replaces the default handler by the creation handler.
\<close>

theorem release_starts_zone_creation:
  fixes h h0 :: "'p::linorder ZoneDefaultInteraction" and geo mouse_pos shiftState
  defines "idle \<equiv> onProximityUpdate geo [] mouse_pos shiftState h0"
  defines "pressed \<equiv> idle\<lparr>interaction := (interaction idle)\<lparr>captured_by := Some DragHandlerCaptor\<rparr>\<rparr>"
  shows "(button event = LeftButton \<and> captured_by (interaction h) = Some DragHandlerCaptor
          \<and> \<not> haveSignificantDrag h \<longrightarrow>
            onMouseReleaseEvent event h =
              \<lparr>installed = [ZoneCreationInteraction], deleted = True, accepted = True\<rparr>
          \<and> (i < length chain \<longrightarrow>
               chain_after chain i (onMouseReleaseEvent event h) = chain[i := ZoneCreationInteraction])
          \<and> \<not> proximityLeader better sentinel (interaction h) VertexProximity
          \<and> \<not> proximityLeader better sentinel (interaction h) SegmentProximity
          \<and> \<not> proximityLeader better sentinel (interaction h) ZoneAreaProximity)
    \<and> (button event \<noteq> LeftButton \<or> captured_by (interaction h) \<noteq> Some DragHandlerCaptor
          \<or> haveSignificantDrag h \<longrightarrow>
            onMouseReleaseEvent event h = ignored
          \<and> (i < length chain \<longrightarrow> chain_after chain i (onMouseReleaseEvent event h) = chain))
    \<and> (claims (interaction h0) = [] \<and> captured_by (interaction h0) = None
          \<and> button event = LeftButton \<and> \<not> haveSignificantDrag h0 \<longrightarrow>
            onMousePressEvent better (no_proximity geo) event idle = ignored
          \<and> onMouseReleaseEvent event pressed =
              \<lparr>installed = [ZoneCreationInteraction], deleted = True, accepted = True\<rparr>
          \<and> chain_after [DefaultInteraction] 0 (onMouseReleaseEvent event pressed) =
              [ZoneCreationInteraction])"
proof -
  have replace: "chain_after chain i \<lparr>installed = [new], deleted = True, accepted = True\<rparr> = chain[i := new]"
    if "i < length chain" for new
    using that by (simp add: chain_after_def upd_conv_take_nth_drop)
  have keep: "chain_after chain i ignored = chain" if "i < length chain"
    using that by (simp add: chain_after_def ignored_def id_take_nth_drop [symmetric])
  have go: "onMouseReleaseEvent event h =
        \<lparr>installed = [ZoneCreationInteraction], deleted = True, accepted = True\<rparr>
      \<and> (i < length chain \<longrightarrow>
           chain_after chain i (onMouseReleaseEvent event h) = chain[i := ZoneCreationInteraction])
      \<and> \<not> proximityLeader better sentinel (interaction h) VertexProximity
      \<and> \<not> proximityLeader better sentinel (interaction h) SegmentProximity
      \<and> \<not> proximityLeader better sentinel (interaction h) ZoneAreaProximity"
    if "button event = LeftButton \<and> captured_by (interaction h) = Some DragHandlerCaptor
      \<and> \<not> haveSignificantDrag h"
    using that replace
    by (simp add: onMouseReleaseEvent_def captured_def dragHandler_isActive_def proximityLeader_def)
  have stay: "onMouseReleaseEvent event h = ignored
      \<and> (i < length chain \<longrightarrow> chain_after chain i (onMouseReleaseEvent event h) = chain)"
    if "button event \<noteq> LeftButton \<or> captured_by (interaction h) \<noteq> Some DragHandlerCaptor
      \<or> haveSignificantDrag h"
  proof -
    from that have "onMouseReleaseEvent event h = ignored"
      by (auto simp add: onMouseReleaseEvent_def captured_def dragHandler_isActive_def)
    with keep show ?thesis by simp
  qed
  have e2e: "onMousePressEvent better (no_proximity geo) event idle = ignored
      \<and> onMouseReleaseEvent event pressed =
          \<lparr>installed = [ZoneCreationInteraction], deleted = True, accepted = True\<rparr>
      \<and> chain_after [DefaultInteraction] 0 (onMouseReleaseEvent event pressed) =
          [ZoneCreationInteraction]"
    if a: "claims (interaction h0) = [] \<and> captured_by (interaction h0) = None
      \<and> button event = LeftButton \<and> \<not> haveSignificantDrag h0"
  proof -
    from a have e: "claims (interaction h0) = []" by simp
    note nl = no_zones_no_leader [OF e, where geo = geo and mouse_pos = mouse_pos
        and shiftState = shiftState, folded idle_def]
    from a onProximityUpdate_result(3) [OF e, of geo "[]" mouse_pos shiftState]
    have k: "captured_by (interaction idle) = None"
      by (simp add: idle_def)
    have press: "onMousePressEvent better (no_proximity geo) event idle = ignored"
      using a by (simp add: onMousePressEvent_def captured_def k nl Let_def)
    from a have d: "\<not> haveSignificantDrag pressed"
      by (simp add: pressed_def idle_def onProximityUpdate_def Let_def)
    have rel: "onMouseReleaseEvent event pressed =
        \<lparr>installed = [ZoneCreationInteraction], deleted = True, accepted = True\<rparr>"
      using a d
      by (simp add: onMouseReleaseEvent_def captured_def dragHandler_isActive_def pressed_def)
    from press rel show ?thesis
      by (simp add: chain_after_def)
  qed
  from go stay e2e show ?thesis by blast
qed

theorem release_starts_zone_creation_witness:
  "claims (interaction fresh_handler) = [] \<and> captured_by (interaction fresh_handler) = None
   \<and> button \<lparr>button = LeftButton, move_modifiers = False\<rparr> = LeftButton
   \<and> \<not> haveSignificantDrag fresh_handler
   \<and> (\<forall>better. onMousePressEvent better (no_proximity equidistant_geometry)
        \<lparr>button = LeftButton, move_modifiers = False\<rparr>
        (onProximityUpdate equidistant_geometry [] (10, 10) ShiftStateUnknown fresh_handler) = ignored)
   \<and> chain_after [DefaultInteraction] 0
        (onMouseReleaseEvent \<lparr>button = LeftButton, move_modifiers = False\<rparr>
          ((onProximityUpdate equidistant_geometry [] (10, 10) ShiftStateUnknown fresh_handler)
             \<lparr>interaction := (interaction (onProximityUpdate equidistant_geometry [] (10, 10)
                 ShiftStateUnknown fresh_handler))\<lparr>captured_by := Some DragHandlerCaptor\<rparr>\<rparr>)) =
      [ZoneCreationInteraction]"
proof -
  have pre: "claims (interaction fresh_handler) = [] \<and> captured_by (interaction fresh_handler) = None
      \<and> button \<lparr>button = LeftButton, move_modifiers = False\<rparr> = LeftButton
      \<and> \<not> haveSignificantDrag fresh_handler"
    by (simp add: fresh_handler_def)
  with release_starts_zone_creation [where ?h0.0 = fresh_handler and geo = equidistant_geometry
      and mouse_pos = "(10, 10)" and shiftState = ShiftStateUnknown
      and event = "\<lparr>button = LeftButton, move_modifiers = False\<rparr>"
      and h = fresh_handler and i = 0 and chain = "[DefaultInteraction]" and sentinel = 0]
  show ?thesis by blast
qed

subsection \<open>The paste action\<close>

text \<open>
  The clipboard holds at most one polygon and a tag for what it holds. A zone is seen
  through the polygon that \<^verbatim>\<open>SerializableSpline(spline).toPolygon()\<close> gives and its
  properties; the zone set has its zones in iteration order, the default properties
  that a new zone gets, and the number of commits made.

  A polygon is a \<^verbatim>\<open>QPolygonF\<close>, a vector of \<^verbatim>\<open>QPointF\<close>, whose coordinates are
  \<^verbatim>\<open>double\<close>. The action does two things with points, both of them Qt's and both on
  doubles: it compares two points with \<^verbatim>\<open>QPointF\<close>'s \<^verbatim>\<open>==\<close>, which is a comparison up
  to a tolerance and not equality, and it maps a point through
  \<^verbatim>\<open>QTransform().translate(100, 100)\<close>, which adds in floating point. Neither is among
  the sources, and neither is assumed to be anything in particular: the type \<open>'pt\<close> of
  points is arbitrary, and the two operations are the parameters \<open>point_equal\<close> and
  \<open>shift_point\<close>. \<^verbatim>\<open>widgetToImage()\<close>, the view's transform, is an input as well.
\<close>

type_synonym 'pt QPolygonF = "'pt list"

datatype ContentType = NoContent | Spline


record ('pt, 'props) Zone =
  zone_polygon :: "'pt QPolygonF"
  zone_properties :: 'props

record ('pt, 'props) EditableZoneSet =
  zones :: "('pt, 'props) Zone list"
  defaultProperties :: 'props
  commit_count :: nat




text \<open>\<^verbatim>\<open>shift.map(new_spline)\<close>: the transform maps every point of the polygon.\<close>

definition shift :: "('pt \<Rightarrow> 'pt) \<Rightarrow> 'pt QPolygonF \<Rightarrow> 'pt QPolygonF" where
  "shift shift_point polygon = map shift_point polygon"




subsection \<open>The paste loop ends at the first free offset, if there is one\<close>













section \<open>Margins with automatic mode (Margins.h)\<close>

text \<open>
  \<^verbatim>\<open>Margins\<close> holds four \<^verbatim>\<open>double\<close> values that are only stored and copied, never
  computed with; they are modelled as reals. \<^verbatim>\<open>MarginsWithAuto\<close> extends it by the
  shared pointer \<^verbatim>\<open>m_backuppedData\<close>, which is null (\<open>None\<close>) or owns a copy of
  the four values.
\<close>

record Margins =
  m_top :: real
  m_bottom :: real
  m_left :: real
  m_right :: real

record MarginsWithAuto = Margins +
  m_backuppedData :: "Margins option"

definition setTop :: "real \<Rightarrow> 'a Margins_scheme \<Rightarrow> 'a Margins_scheme" where
  "setTop val m = m\<lparr>m_top := val\<rparr>"

definition setBottom :: "real \<Rightarrow> 'a Margins_scheme \<Rightarrow> 'a Margins_scheme" where
  "setBottom val m = m\<lparr>m_bottom := val\<rparr>"

definition setLeft :: "real \<Rightarrow> 'a Margins_scheme \<Rightarrow> 'a Margins_scheme" where
  "setLeft val m = m\<lparr>m_left := val\<rparr>"

definition setRight :: "real \<Rightarrow> 'a Margins_scheme \<Rightarrow> 'a Margins_scheme" where
  "setRight val m = m\<lparr>m_right := val\<rparr>"

text \<open>\<^verbatim>\<open>new Margins(*this)\<close>: the base-class part of the object, copied.\<close>

definition base_copy :: "MarginsWithAuto \<Rightarrow> Margins" where
  "base_copy m = \<lparr>m_top = m_top m, m_bottom = m_bottom m, m_left = m_left m, m_right = m_right m\<rparr>"

text \<open>
  \<^verbatim>\<open>static_cast<Margins&>(*this) = rhs\<close>: the four base-class fields are overwritten,
  the backup pointer is not touched. This is the body of \<^verbatim>\<open>operator=(Margins)\<close>.
\<close>

definition assign_Margins :: "MarginsWithAuto \<Rightarrow> Margins \<Rightarrow> MarginsWithAuto" where
  "assign_Margins m rhs =
     m\<lparr>m_top := m_top rhs, m_bottom := m_bottom rhs, m_left := m_left rhs, m_right := m_right rhs\<rparr>"

definition isAutoMarginsEnabled :: "MarginsWithAuto \<Rightarrow> bool" where
  "isAutoMarginsEnabled m \<longleftrightarrow> m_backuppedData m \<noteq> None"

definition backupValues :: "MarginsWithAuto \<Rightarrow> MarginsWithAuto" where
  "backupValues m =
     (if m_backuppedData m = None then m\<lparr>m_backuppedData := Some (base_copy m)\<rparr> else m)"

definition restoreValues :: "MarginsWithAuto \<Rightarrow> MarginsWithAuto \<times> bool" where
  "restoreValues m =
     (case m_backuppedData m of
        Some b \<Rightarrow> ((assign_Margins m b)\<lparr>m_backuppedData := None\<rparr>, True)
      | None \<Rightarrow> (m, False))"

definition setAutoMargins :: "bool \<Rightarrow> MarginsWithAuto \<Rightarrow> MarginsWithAuto" where
  "setAutoMargins state m =
     (if state \<and> m_backuppedData m = None then backupValues m
      else if \<not> state \<and> m_backuppedData m \<noteq> None then fst (restoreValues m)
      else m)"

text \<open>A call of one of the four setters, and a sequence of such calls run in order.\<close>

datatype setter_call = SetTop real | SetBottom real | SetLeft real | SetRight real

fun run_setter :: "setter_call \<Rightarrow> MarginsWithAuto \<Rightarrow> MarginsWithAuto" where
  "run_setter (SetTop v) m = setTop v m"
| "run_setter (SetBottom v) m = setBottom v m"
| "run_setter (SetLeft v) m = setLeft v m"
| "run_setter (SetRight v) m = setRight v m"

definition run_setters :: "setter_call list \<Rightarrow> MarginsWithAuto \<Rightarrow> MarginsWithAuto" where
  "run_setters calls m = fold run_setter calls m"

lemma run_setter_backup: "m_backuppedData (run_setter c m) = m_backuppedData m"
  by (cases c) (simp_all add: setTop_def setBottom_def setLeft_def setRight_def)

lemma run_setters_backup: "m_backuppedData (run_setters calls m) = m_backuppedData m"
  unfolding run_setters_def
  by (induction calls arbitrary: m) (simp_all add: run_setter_backup)

lemma base_copy_assign: "base_copy (assign_Margins m rhs) = rhs"
  by (simp add: base_copy_def assign_Margins_def)

text \<open>
  Claim C9. Starting with automatic margins disabled: enabling, then any sequence of
  setter calls, then disabling restores the four values held when enabling;
  \<open>isAutoMarginsEnabled\<close> is true exactly while the backup exists, that is after
  enabling and after every setter call, and false again after disabling; assignment
  from a plain \<open>Margins\<close> replaces the four values and leaves the backup, hence the
  automatic-margins state, as it was.
\<close>

theorem auto_margins_roundtrip:
  assumes "\<not> isAutoMarginsEnabled m"
  shows "base_copy (setAutoMargins False (run_setters calls (setAutoMargins True m))) = base_copy m
    \<and> isAutoMarginsEnabled (setAutoMargins True m)
    \<and> isAutoMarginsEnabled (run_setters calls (setAutoMargins True m))
    \<and> \<not> isAutoMarginsEnabled (setAutoMargins False (run_setters calls (setAutoMargins True m)))
    \<and> (isAutoMarginsEnabled x \<longleftrightarrow> m_backuppedData x \<noteq> None)
    \<and> base_copy (assign_Margins x rhs) = rhs
    \<and> m_backuppedData (assign_Margins x rhs) = m_backuppedData x
    \<and> isAutoMarginsEnabled (assign_Margins x rhs) = isAutoMarginsEnabled x"
proof -
  let ?m1 = "setAutoMargins True m"
  let ?m2 = "run_setters calls ?m1"
  from assms have none: "m_backuppedData m = None"
    by (simp add: isAutoMarginsEnabled_def)
  then have b1: "m_backuppedData ?m1 = Some (base_copy m)"
    by (simp add: setAutoMargins_def backupValues_def)
  then have b2: "m_backuppedData ?m2 = Some (base_copy m)"
    by (simp add: run_setters_backup)
  then have m3: "setAutoMargins False ?m2 = (assign_Margins ?m2 (base_copy m))\<lparr>m_backuppedData := None\<rparr>"
    by (simp add: setAutoMargins_def restoreValues_def)
  have "base_copy (setAutoMargins False ?m2) = base_copy m"
    unfolding m3 by (simp add: base_copy_def assign_Margins_def)
  moreover have "\<not> isAutoMarginsEnabled (setAutoMargins False ?m2)"
    unfolding m3 by (simp add: isAutoMarginsEnabled_def)
  moreover have "isAutoMarginsEnabled ?m1" "isAutoMarginsEnabled ?m2"
    using b1 b2 by (simp_all add: isAutoMarginsEnabled_def)
  moreover have "m_backuppedData (assign_Margins x rhs) = m_backuppedData x"
    by (simp add: assign_Margins_def)
  ultimately show ?thesis
    by (simp add: base_copy_assign isAutoMarginsEnabled_def)
qed

definition margins_example :: MarginsWithAuto where
  "margins_example = \<lparr>m_top = 1, m_bottom = 2, m_left = 3, m_right = 4, m_backuppedData = None\<rparr>"

theorem auto_margins_roundtrip_witness:
  "\<not> isAutoMarginsEnabled margins_example
   \<and> base_copy (setAutoMargins False (run_setters [SetTop 9, SetLeft 7, SetTop 5]
        (setAutoMargins True margins_example))) = base_copy margins_example
   \<and> m_top (run_setters [SetTop 9, SetLeft 7, SetTop 5] (setAutoMargins True margins_example)) = 5"
proof -
  have h: "\<not> isAutoMarginsEnabled margins_example"
    by (simp add: isAutoMarginsEnabled_def margins_example_def)
  have "m_top (run_setters [SetTop 9, SetLeft 7, SetTop 5] (setAutoMargins True margins_example)) = 5"
    by (simp add: run_setters_def setTop_def setLeft_def)
  with h auto_margins_roundtrip [OF h, of "[SetTop 9, SetLeft 7, SetTop 5]"] show ?thesis
    by simp
qed

section \<open>Page-layout alignment and its XML form (Alignment.cpp)\<close>

datatype Vertical = TOP | VCENTER | BOTTOM | VAUTO | VORIGINAL

datatype Horizontal = LEFT | HCENTER | RIGHT | HAUTO | HORIGINAL

text \<open>
  The tolerance is a \<^verbatim>\<open>double\<close> that is printed by \<^verbatim>\<open>QString::number\<close> and read
  back by \<^verbatim>\<open>QString::toDouble\<close>. Both belong to Qt; the model is generic in the type
  \<open>'d\<close> of tolerances and takes the two conversions as parameters.
\<close>

record 'd Alignment =
  m_vert :: Vertical
  m_hor :: Horizontal
  m_isNull :: bool
  m_tolerance :: 'd
  m_autoMargins :: bool

text \<open>
  A \<^verbatim>\<open>QDomElement\<close> is its tag name and its attributes. \<^verbatim>\<open>attribute(name, def)\<close>
  returns the default (the empty string when none is given) for an absent attribute.
\<close>

record QDomElement =
  tagName :: string
  attributes :: "string \<rightharpoonup> string"

definition createElement :: "string \<Rightarrow> QDomElement" where
  "createElement name = \<lparr>tagName = name, attributes = Map.empty\<rparr>"

definition setAttribute :: "string \<Rightarrow> string \<Rightarrow> QDomElement \<Rightarrow> QDomElement" where
  "setAttribute name val el = el\<lparr>attributes := (attributes el)(name \<mapsto> val)\<rparr>"

definition attribute :: "QDomElement \<Rightarrow> string \<Rightarrow> string \<Rightarrow> string" where
  "attribute el name def_value = (case attributes el name of Some v \<Rightarrow> v | None \<Rightarrow> def_value)"

text \<open>
  \<^verbatim>\<open>QString::toInt\<close> in base 10, as far as the element needs it: a string of decimal
  digits is its value, anything else (the empty string too) is a failed conversion,
  which returns 0. \<^verbatim>\<open>setAttribute(name, int)\<close> stores the decimal digits of the number;
  the only numbers stored here are 1 and 0.
\<close>

definition digit_value :: "char \<Rightarrow> nat option" where
  "digit_value ch =
     (let code = (of_char ch :: nat)
      in if of_char CHR ''0'' \<le> code \<and> code \<le> of_char CHR ''9''
         then Some (code - of_char CHR ''0'') else None)"

fun digits_value :: "nat \<Rightarrow> string \<Rightarrow> nat option" where
  "digits_value acc [] = Some acc"
| "digits_value acc (ch # rest) =
     (case digit_value ch of None \<Rightarrow> None | Some d \<Rightarrow> digits_value (10 * acc + d) rest)"

definition toInt :: "string \<Rightarrow> int" where
  "toInt s = (if s = [] then 0 else case digits_value 0 s of None \<Rightarrow> 0 | Some n \<Rightarrow> int n)"

definition Alignment_from_xml :: "(string \<Rightarrow> 'd) \<Rightarrow> string \<Rightarrow> QDomElement \<Rightarrow> 'd Alignment" where
  "Alignment_from_xml toDouble default_tolerance el =
     (let vert = attribute el ''vert'' [];
          hor = attribute el ''hor'' []
      in \<lparr>m_vert =
            (if vert = ''top'' then TOP
             else if vert = ''bottom'' then BOTTOM
             else if vert = ''auto'' then VAUTO
             else if vert = ''original'' then VORIGINAL
             else VCENTER),
          m_hor =
            (if hor = ''left'' then LEFT
             else if hor = ''right'' then RIGHT
             else if hor = ''auto'' then HAUTO
             else if vert = ''original'' then HORIGINAL
             else HCENTER),
          m_isNull = (toInt (attribute el ''null'' []) \<noteq> 0),
          m_tolerance = toDouble (attribute el ''tolerance'' default_tolerance),
          m_autoMargins = (if attribute el ''autoMargins'' [] = ''true'' then True else False)\<rparr>)"

definition toXml :: "('d \<Rightarrow> string) \<Rightarrow> 'd Alignment \<Rightarrow> string \<Rightarrow> QDomElement" where
  "toXml number a name =
     (let vert = (case m_vert a of
                    TOP \<Rightarrow> ''top'' | VCENTER \<Rightarrow> ''vcenter'' | BOTTOM \<Rightarrow> ''bottom''
                  | VAUTO \<Rightarrow> ''auto'' | VORIGINAL \<Rightarrow> ''original'');
          hor = (case m_hor a of
                   LEFT \<Rightarrow> ''left'' | HCENTER \<Rightarrow> ''hcenter'' | RIGHT \<Rightarrow> ''right''
                 | HAUTO \<Rightarrow> ''auto'' | HORIGINAL \<Rightarrow> ''original'');
          el = createElement name;
          el = setAttribute ''vert'' vert el;
          el = setAttribute ''hor'' hor el;
          el = setAttribute ''null'' (if m_isNull a then ''1'' else ''0'') el;
          el = setAttribute ''tolerance'' (number (m_tolerance a)) el;
          el = setAttribute ''autoMargins'' (if m_autoMargins a then ''true'' else ''false'') el
      in el)"

lemma attribute_toXml:
  "attribute (toXml number a name) ''vert'' d =
     (case m_vert a of TOP \<Rightarrow> ''top'' | VCENTER \<Rightarrow> ''vcenter'' | BOTTOM \<Rightarrow> ''bottom''
      | VAUTO \<Rightarrow> ''auto'' | VORIGINAL \<Rightarrow> ''original'')"
  "attribute (toXml number a name) ''hor'' d =
     (case m_hor a of LEFT \<Rightarrow> ''left'' | HCENTER \<Rightarrow> ''hcenter'' | RIGHT \<Rightarrow> ''right''
      | HAUTO \<Rightarrow> ''auto'' | HORIGINAL \<Rightarrow> ''original'')"
  "attribute (toXml number a name) ''null'' d = (if m_isNull a then ''1'' else ''0'')"
  "attribute (toXml number a name) ''autoMargins'' d = (if m_autoMargins a then ''true'' else ''false'')"
  by (simp_all add: toXml_def attribute_def setAttribute_def createElement_def Let_def)

lemma toInt_flag: "toInt ''1'' = 1" "toInt ''0'' = 0"
  by (simp_all add: toInt_def digit_value_def)

lemma xml_roundtrip_vert:
  "m_vert (Alignment_from_xml toDouble dt (toXml number a name)) = m_vert a"
  by (cases "m_vert a") (simp_all add: Alignment_from_xml_def attribute_toXml Let_def)

lemma xml_roundtrip_flags:
  "m_isNull (Alignment_from_xml toDouble dt (toXml number a name)) = m_isNull a"
  "m_autoMargins (Alignment_from_xml toDouble dt (toXml number a name)) = m_autoMargins a"
  by (simp_all add: Alignment_from_xml_def attribute_toXml Let_def toInt_flag)

lemma xml_roundtrip_hor:
  "m_hor (Alignment_from_xml toDouble dt (toXml number a name)) =
     (if m_hor a = LEFT then LEFT else if m_hor a = RIGHT then RIGHT
      else if m_hor a = HAUTO then HAUTO
      else if m_vert a = VORIGINAL then HORIGINAL else HCENTER)"
  by (cases "m_hor a"; cases "m_vert a")
     (simp_all add: Alignment_from_xml_def attribute_toXml Let_def)

text \<open>
  Claim C10 (the horizontal mode is not preserved). An alignment with vertical mode
  \<open>TOP\<close> and horizontal mode \<open>HORIGINAL\<close> is written with \<open>hor = original\<close> and read back
  as \<open>HCENTER\<close>: the reader's fourth horizontal test compares the \<^emph>\<open>vertical\<close> string
  with \<open>original\<close>. The vertical mode and the two flags do survive.
\<close>

theorem xml_roundtrip_hor_original_lost:
  "m_hor (Alignment_from_xml toDouble dt
      (toXml number \<lparr>m_vert = TOP, m_hor = HORIGINAL, m_isNull = False,
                     m_tolerance = tol, m_autoMargins = False\<rparr> name)) = HCENTER
   \<and> m_hor (Alignment_from_xml toDouble dt
      (toXml number \<lparr>m_vert = VORIGINAL, m_hor = HCENTER, m_isNull = False,
                     m_tolerance = tol, m_autoMargins = False\<rparr> name)) = HORIGINAL"
  by (simp add: xml_roundtrip_hor)

end
